theory Spec2Isabelle
  imports Complex_Main "HOL-Library.Char_ord" "HOL-Library.List_Lexorder"
    "HOL-Library.Log_Nat" "HOL-Library.Option_ord" "HOL-Library.Product_Lexorder"
begin

section \<open>Python and framework values\<close>

text \<open>
  Document fields and table columns of the framework may be unset: a field that holds a
  name or a text is a \<open>string option\<close>, a numeric field a \<open>rat option\<close>. Python floats are
  idealised as exact rationals: no rounding error, no infinities, no NaN. Primary keys
  (the \<open>name\<close> column of a table) are plain strings.
\<close>

datatype error =
    ValidationError string
  | DoesNotExistError string "string option"
  | TypeError

text \<open>Python truthiness of a field holding a string or \<open>None\<close>.\<close>

fun truthy :: "string option \<Rightarrow> bool" where
  "truthy None = False"
| "truthy (Some s) = (s \<noteq> [])"

text \<open>\<open>x or 0\<close>, \<open>x or 100\<close> on a number or \<open>None\<close>, and \<open>x or ""\<close> on a string or \<open>None\<close>.\<close>

fun or_0 :: "rat option \<Rightarrow> rat" where
  "or_0 None = 0"
| "or_0 (Some x) = (if x = 0 then 0 else x)"

fun or_100 :: "rat option \<Rightarrow> rat" where
  "or_100 None = 100"
| "or_100 (Some x) = (if x = 0 then 100 else x)"

fun or_empty :: "string option \<Rightarrow> string" where
  "or_empty None = []"
| "or_empty (Some s) = s"

text \<open>\<open>str\<close> of a string or \<open>None\<close>, as an f-string or \<open>format\<close> prints it.\<close>

fun str_opt :: "string option \<Rightarrow> string" where
  "str_opt None = ''None''"
| "str_opt (Some s) = s"

text \<open>\<open>str\<close> of a non-negative integer.\<close>

definition digit_char :: "nat \<Rightarrow> char" where
  "digit_char d = char_of (48 + d)"

fun str_nat :: "nat \<Rightarrow> string" where
  "str_nat n = (if n < 10 then [digit_char n] else str_nat (n div 10) @ [digit_char (n mod 10)])"

declare str_nat.simps [simp del]

text \<open>The nearest integer, a tie going to the even one.\<close>

definition round_half_even :: "rat \<Rightarrow> int" where
  "round_half_even x =
     (let f = \<lfloor>x\<rfloor>; d = x - of_int f
      in if d < 1 / 2 then f else if 1 / 2 < d then f + 1 else if even f then f else f + 1)"

text \<open>The nearest multiple of 1/100 of an exact value, a tie going to the even one.\<close>

definition round2 :: "rat \<Rightarrow> rat" where
  "round2 x = of_int (round_half_even (x * 100)) / 100"

text \<open>SQL equality: a NULL on either side never matches.\<close>

fun sql_eq :: "'a option \<Rightarrow> 'a option \<Rightarrow> bool" where
  "sql_eq (Some a) (Some b) = (a = b)"
| "sql_eq _ _ = False"

subsection \<open>Floats\<close>

text \<open>
  The marks are Python floats: IEEE 754 double-precision numbers. A float is represented
  here by the rational number it denotes, and every arithmetic operation of the source
  is the exact operation followed by \<open>py_float\<close>, the rounding to the nearest float: 53
  significant bits, a tie going to the even significand, and a spacing that never goes
  below \<open>pow2 (- 1074)\<close> (gradual underflow). \<open>py_float\<close> is also what \<open>float(x)\<close> gives
  for an exact number \<open>x\<close>; on a float it is the identity. Infinities and NaN have no
  representation: a result of magnitude \<open>pow2 1024\<close> or more, where the machine
  overflows, is outside what the model describes.
\<close>

definition pow2 :: "int \<Rightarrow> rat" where
  "pow2 k = (if 0 \<le> k then 2 ^ nat k else 1 / 2 ^ nat (- k))"

text \<open>The binary exponent of a non-zero number: \<open>pow2 (binade x) \<le> \<bar>x\<bar> < pow2 (binade x + 1)\<close>.\<close>

definition binade :: "rat \<Rightarrow> int" where
  "binade x =
     (let (p, q) = quotient_of \<bar>x\<bar>; d = bitlen p - bitlen q
      in if pow2 d \<le> \<bar>x\<bar> then d else d - 1)"

definition py_float :: "rat \<Rightarrow> rat" where
  "py_float x =
     (if x = 0 then 0
      else (let ulp = pow2 (max (binade x - 52) (- 1074))
            in of_int (round_half_even (x / ulp)) * ulp))"

definition py_add :: "rat \<Rightarrow> rat \<Rightarrow> rat" where
  "py_add a b = py_float (a + b)"

definition py_sub :: "rat \<Rightarrow> rat \<Rightarrow> rat" where
  "py_sub a b = py_float (a - b)"

definition py_mul :: "rat \<Rightarrow> rat \<Rightarrow> rat" where
  "py_mul a b = py_float (a * b)"

text \<open>\<open>a / b\<close> for a divisor other than zero; every division of the source is guarded.\<close>

definition py_div :: "rat \<Rightarrow> rat \<Rightarrow> rat" where
  "py_div a b = py_float (a / b)"

text \<open>
  \<open>round(x, 2)\<close> on a float: the interpreter prints the exact value of \<open>x\<close> to two decimal
  places, correctly rounded with a tie going to the even digit, and reads the decimal
  back as a float.
\<close>

definition py_round2 :: "rat \<Rightarrow> rat" where
  "py_round2 x = py_float (round2 x)"

text \<open>
  \<open>sum(xs)\<close> on a list of floats, starting from the integer 0: the interpreter adds the
  items from left to right, rounding after each addition. This is CPython up to version
  3.11. From version 3.12 on it also keeps a running compensation \<open>c\<close> for the rounding
  errors (Neumaier's summation), which it adds to the result at the end when it is not
  zero (\<open>py_sum_compensated\<close>); the two agree whenever every partial sum is itself a
  float, as with integral marks. The integer 0 that \<open>x or 0\<close> puts in the list in place
  of a zero or unset mark leaves the running sum as it is, like the float zero.
\<close>

definition py_sum :: "rat list \<Rightarrow> rat" where
  "py_sum xs = foldl py_add 0 xs"

fun neumaier :: "rat list \<Rightarrow> rat \<Rightarrow> rat \<Rightarrow> rat" where
  "neumaier [] f_result c = (if c \<noteq> 0 then py_add f_result c else f_result)"
| "neumaier (x # rest) f_result c =
     (let t = py_add f_result x
      in neumaier rest t
           (if \<bar>f_result\<bar> \<ge> \<bar>x\<bar> then py_add c (py_add (py_sub f_result t) x)
            else py_add c (py_add (py_sub x t) f_result)))"

fun py_sum_compensated :: "rat list \<Rightarrow> rat" where
  "py_sum_compensated [] = 0"
| "py_sum_compensated (x # rest) = neumaier rest (py_add 0 x) 0"

text \<open>The partial sums of a list, from a start value, are all floats.\<close>

fun exact_sums :: "rat \<Rightarrow> rat list \<Rightarrow> bool" where
  "exact_sums f [] = True"
| "exact_sums f (x # rest) =
     (py_float x = x \<and> py_float (f + x) = f + x \<and> exact_sums (f + x) rest)"

section \<open>The validation hook of Assessment Criteria\<close>

record assessment_criteria_item =
  criteria_name :: "string option"

record grading_scale_row =
  min_percentage :: "rat option"
  max_percentage :: "rat option"
  grade_code :: "string option"

record school_settings =
  overall_grading_scale :: "grading_scale_row list"
  assessment_criteria_item :: "assessment_criteria_item list"

record assessment_criteria_doc =
  assessment_criteria :: "string option"

text \<open>
  \<open>validate_assessment_criteria(doc, method)\<close>; the source does not read \<open>method\<close>. The
  settings record is \<open>None\<close> when \<open>frappe.get_doc\<close> raises \<open>DoesNotExistError\<close>. \<open>Inl\<close> is the
  error \<open>frappe.throw\<close> raises.
\<close>

definition not_configured_message :: "string option \<Rightarrow> string" where
  "not_configured_message c =
     ''Assessment Criteria \"'' @ str_opt c @
     ''\" is not configured in School Settings. Please add it first.''"

definition validate_assessment_criteria ::
  "school_settings option \<Rightarrow> assessment_criteria_doc \<Rightarrow> error + unit" where
  "validate_assessment_criteria settings_doc doc =
     (case settings_doc of
        None \<Rightarrow> Inr ()
      | Some settings \<Rightarrow>
          (let valid_criteria = map criteria_name (assessment_criteria_item settings)
           in if valid_criteria = [] then Inr ()
              else if assessment_criteria doc \<notin> set valid_criteria
              then Inl (ValidationError (not_configured_message (assessment_criteria doc)))
              else Inr ()))"

section \<open>The tables the result populator reads\<close>

text \<open>
  Each table is the list of its rows, in the order the framework lists them. The column
  prefixes are the aliases of the source's queries: \<open>s\<close> Student, \<open>sgs\<close> Student Group
  Student, \<open>ar\<close> Assessment Result, \<open>ard\<close> Assessment Result Detail, \<open>pe\<close> Program
  Enrollment.
\<close>

record student_row =
  s_name :: string
  s_gender :: "string option"

record academic_term_row =
  at_name :: string
  at_term_start_date :: "string option"
  at_term_end_date :: "string option"

record student_group_row =
  sg_name :: string
  sg_program :: "string option"

record student_group_student_row =
  sgs_parent :: "string option"
  sgs_student :: "string option"

record program_enrollment_row =
  pe_student :: "string option"
  pe_program :: "string option"
  pe_academic_year :: "string option"
  pe_academic_term :: "string option"
  pe_docstatus :: nat

record assessment_result_row =
  ar_name :: string
  ar_student :: "string option"
  ar_course :: "string option"
  ar_academic_year :: "string option"
  ar_academic_term :: "string option"
  ar_assessment_group :: "string option"
  ar_docstatus :: nat
  ar_total_score :: "rat option"
  ar_grade :: "string option"

record assessment_result_detail_row =
  ard_parent :: "string option"
  ard_idx :: nat
  ard_assessment_criteria :: "string option"
  ard_score :: "rat option"
  ard_maximum_score :: "rat option"

record generator_row =
  gen_name :: string
  gen_assessment_group :: "string option"
  gen_academic_year :: "string option"
  gen_academic_term :: "string option"
  gen_student_group :: "string option"

record database =
  tabStudent :: "student_row list"
  tabAcademic_Term :: "academic_term_row list"
  tabStudent_Group :: "student_group_row list"
  tabStudent_Group_Student :: "student_group_student_row list"
  tabProgram_Enrollment :: "program_enrollment_row list"
  tabAssessment_Result :: "assessment_result_row list"
  tabAssessment_Result_Detail :: "assessment_result_detail_row list"
  tabGenerator :: "generator_row list"
  tabSchool_Settings :: "school_settings option"

section \<open>The School Term Result document\<close>

record subject_row =
  subject :: "string option"
  total_score :: rat
  grade :: string
  subject_position :: string
  class_highest_score :: rat
  class_lowest_score :: rat
  class_average_score :: rat

record component_row =
  criteria :: "string option"
  score_obtained :: rat
  max_score :: rat
  component_subject :: "string option"

record school_term_result =
  student :: "string option"
  assessment_group :: "string option"
  academic_year :: "string option"
  academic_term :: "string option"
  term_start_date :: "string option"
  term_end_date :: "string option"
  gender :: "string option"
  student_admission_id :: "string option"
  student_group :: "string option"
  number_of_students_in_class_group :: "nat option"
  number_of_students_in_class :: "nat option"
  subjects :: "subject_row list"
  assessment_components :: "component_row list"
  total_marks_obtained :: "rat option"
  total_max_marks :: "rat option"
  term_average :: "rat option"
  overall_grade :: "string option"
  class_arm_position :: "nat option"
  class_position :: "nat option"

text \<open>What an operation does besides returning: notices, error-log entries, writes.\<close>

datatype event =
    Msgprint string
  | LogError string error
  | Insert school_term_result
  | Commit

section \<open>Framework reads\<close>

text \<open>\<open>frappe.get_doc(doctype, name)\<close>: the record of that name, or \<open>DoesNotExistError\<close>.\<close>

definition get_student :: "database \<Rightarrow> string option \<Rightarrow> error + student_row" where
  "get_student db name =
     (case find (\<lambda>s. Some (s_name s) = name) (tabStudent db) of
        None \<Rightarrow> Inl (DoesNotExistError ''Student'' name)
      | Some s \<Rightarrow> Inr s)"

definition get_academic_term :: "database \<Rightarrow> string option \<Rightarrow> error + academic_term_row" where
  "get_academic_term db name =
     (case find (\<lambda>t. Some (at_name t) = name) (tabAcademic_Term db) of
        None \<Rightarrow> Inl (DoesNotExistError ''Academic Term'' name)
      | Some t \<Rightarrow> Inr t)"

definition get_generator :: "database \<Rightarrow> string \<Rightarrow> error + generator_row" where
  "get_generator db name =
     (case find (\<lambda>g. gen_name g = name) (tabGenerator db) of
        None \<Rightarrow> Inl (DoesNotExistError ''School Term Class Result Generator'' (Some name))
      | Some g \<Rightarrow> Inr g)"

definition get_school_settings :: "database \<Rightarrow> error + school_settings" where
  "get_school_settings db =
     (case tabSchool_Settings db of
        None \<Rightarrow> Inl (DoesNotExistError ''School Settings'' (Some ''School Settings''))
      | Some s \<Rightarrow> Inr s)"

text \<open>\<open>frappe.get_all("Student Group Student", filters={field: value})\<close> and \<open>frappe.db.count\<close>.\<close>

definition students_of_group :: "database \<Rightarrow> string option \<Rightarrow> student_group_student_row list" where
  "students_of_group db g = filter (\<lambda>r. sgs_parent r = g) (tabStudent_Group_Student db)"

definition groups_of_student :: "database \<Rightarrow> string option \<Rightarrow> student_group_student_row list" where
  "groups_of_student db st = filter (\<lambda>r. sgs_student r = st) (tabStudent_Group_Student db)"

definition count_program_enrollment ::
  "database \<Rightarrow> string option \<Rightarrow> string option \<Rightarrow> string option \<Rightarrow> nat" where
  "count_program_enrollment db program year term_name =
     length (filter (\<lambda>r. pe_program r = program \<and> pe_academic_year r = year \<and>
                          pe_academic_term r = term_name \<and> pe_docstatus r = 1)
               (tabProgram_Enrollment db))"

text \<open>\<open>frappe.db.get_value("Student Group", name, "program")\<close>: \<open>None\<close> when there is no such group.\<close>

definition get_program :: "database \<Rightarrow> string option \<Rightarrow> string option" where
  "get_program db g =
     (case find (\<lambda>r. Some (sg_name r) = g) (tabStudent_Group db) of
        None \<Rightarrow> None
      | Some r \<Rightarrow> sg_program r)"

section \<open>The queries of the result populator\<close>

text \<open>
  Each query is the list its SELECT returns. String comparison is exact (the collation of
  the database is not modelled), \<open>ORDER BY\<close> is a stable sort of the rows in table order
  with NULL first, and a join lists the rows of its left table in table order.
\<close>

definition docstatus_in_0_1 :: "nat \<Rightarrow> bool" where
  "docstatus_in_0_1 d = (d = 0 \<or> d = 1)"

record detailed_result_row =
  row_course :: "string option"
  row_total_score :: "rat option"
  row_grade :: "string option"
  row_assessment_criteria :: "string option"
  row_score :: "rat option"
  row_maximum_score :: "rat option"

text \<open>Step 5: the assessment results of the student with their detail rows.\<close>

definition student_results :: "database \<Rightarrow> school_term_result \<Rightarrow> assessment_result_row list" where
  "student_results db doc =
     filter (\<lambda>ar. sql_eq (ar_student ar) (student doc) \<and>
                   sql_eq (ar_academic_year ar) (academic_year doc) \<and>
                   sql_eq (ar_academic_term ar) (academic_term doc) \<and>
                   sql_eq (ar_assessment_group ar) (assessment_group doc) \<and>
                   docstatus_in_0_1 (ar_docstatus ar))
       (tabAssessment_Result db)"

definition detailed_results :: "database \<Rightarrow> school_term_result \<Rightarrow> detailed_result_row list" where
  "detailed_results db doc =
     map (\<lambda>(ar, ard).
            \<lparr>row_course = ar_course ar, row_total_score = ar_total_score ar,
             row_grade = ar_grade ar, row_assessment_criteria = ard_assessment_criteria ard,
             row_score = ard_score ard, row_maximum_score = ard_maximum_score ard\<rparr>)
       (sort_key (\<lambda>(ar, ard). (ar_course ar, ard_idx ard))
          [(ar, ard). ar \<leftarrow> student_results db doc, ard \<leftarrow> tabAssessment_Result_Detail db,
                      sql_eq (Some (ar_name ar)) (ard_parent ard)])"

text \<open>
  The join shared by the class queries of step 7 and step 10: Assessment Result with
  Student and Student Group Student, for one group, assessment group, term and year.
\<close>

definition group_results ::
  "database \<Rightarrow> string option \<Rightarrow> string option \<Rightarrow> string option \<Rightarrow> string option \<Rightarrow>
   assessment_result_row list" where
  "group_results db grp ag term_name year =
     [ar. ar \<leftarrow> tabAssessment_Result db, s \<leftarrow> tabStudent db,
          sql_eq (ar_student ar) (Some (s_name s)),
          sgs \<leftarrow> tabStudent_Group_Student db,
          sql_eq (Some (s_name s)) (sgs_student sgs),
          sql_eq (sgs_parent sgs) grp,
          sql_eq (ar_assessment_group ar) ag,
          sql_eq (ar_academic_term ar) term_name,
          sql_eq (ar_academic_year ar) year,
          docstatus_in_0_1 (ar_docstatus ar)]"

definition class_scores ::
  "database \<Rightarrow> string option \<Rightarrow> string option \<Rightarrow> string option \<Rightarrow> string option \<Rightarrow>
   string option \<Rightarrow> rat list" where
  "class_scores db grp course ag term_name year =
     [t. ar \<leftarrow> group_results db grp ag term_name year, sql_eq (ar_course ar) course,
         Some t \<leftarrow> [ar_total_score ar]]"

text \<open>
  \<open>SUM\<close> skips NULL and is NULL when nothing is left; \<open>GROUP BY ar.student ORDER BY total DESC\<close>.
  The addition is the database's, taken here as the exact sum of the values.
\<close>

definition sql_sum :: "rat option list \<Rightarrow> rat option" where
  "sql_sum vs = (let xs = [x. Some x \<leftarrow> vs] in if xs = [] then None else Some (sum_list xs))"

definition totals_by_student ::
  "assessment_result_row list \<Rightarrow> (string option \<times> rat option) list" where
  "totals_by_student rows =
     sort_key (\<lambda>(st, total_sum). case total_sum of None \<Rightarrow> (1 :: nat, 0 :: rat) | Some t \<Rightarrow> (0, - t))
       (map (\<lambda>st. (st, sql_sum (map ar_total_score (filter (\<lambda>ar. ar_student ar = st) rows))))
          (remdups (map ar_student rows)))"

definition class_arm_totals ::
  "database \<Rightarrow> string option \<Rightarrow> string option \<Rightarrow> string option \<Rightarrow> string option \<Rightarrow>
   (string option \<times> rat option) list" where
  "class_arm_totals db grp ag term_name year = totals_by_student (group_results db grp ag term_name year)"

definition class_totals ::
  "database \<Rightarrow> string option \<Rightarrow> string option \<Rightarrow> string option \<Rightarrow> string option \<Rightarrow>
   (string option \<times> rat option) list" where
  "class_totals db program year term_name ag =
     totals_by_student
       [ar. ar \<leftarrow> tabAssessment_Result db, s \<leftarrow> tabStudent db,
            sql_eq (ar_student ar) (Some (s_name s)),
            pe \<leftarrow> tabProgram_Enrollment db,
            sql_eq (Some (s_name s)) (pe_student pe),
            sql_eq (pe_program pe) program,
            sql_eq (pe_academic_year pe) year,
            sql_eq (pe_academic_term pe) term_name,
            pe_docstatus pe = 1,
            sql_eq (ar_assessment_group ar) ag,
            sql_eq (ar_academic_term ar) term_name,
            sql_eq (ar_academic_year ar) year,
            docstatus_in_0_1 (ar_docstatus ar)]"

section \<open>The result populator\<close>

text \<open>Step 4: the student's group and the two class sizes.\<close>

definition resolve_group :: "database \<Rightarrow> school_term_result \<Rightarrow> event list \<times> school_term_result" where
  "resolve_group db doc =
     (case groups_of_student db (student doc) of
        [] \<Rightarrow> ([Msgprint (''No Student Group found for '' @ str_opt (student doc))], doc)
      | sgs0 # _ \<Rightarrow>
          (let student_group_name = sgs_parent sgs0;
               program = get_program db student_group_name
           in ([], doc\<lparr>student_group := student_group_name,
                       number_of_students_in_class_group :=
                         Some (length (students_of_group db student_group_name)),
                       number_of_students_in_class :=
                         Some (count_program_enrollment db program
                                 (academic_year doc) (academic_term doc))\<rparr>)))"

text \<open>
  Step 6: \<open>course_details\<close>, a dictionary in insertion order: the first row of a course
  creates its entry with that row's total score and grade, every row adds its detail.
\<close>

record course_data =
  details :: "(string option \<times> rat \<times> rat) list"
  cd_total_score :: "rat option"
  cd_grade :: "string option"

definition course_details_add ::
  "(string option \<times> course_data) list \<Rightarrow> detailed_result_row \<Rightarrow>
   (string option \<times> course_data) list" where
  "course_details_add cd row =
     (let course = row_course row;
          cd1 = (if course \<notin> set (map fst cd)
                 then cd @ [(course, \<lparr>details = [], cd_total_score = row_total_score row,
                                      cd_grade = row_grade row\<rparr>)]
                 else cd)
      in map (\<lambda>(c, d). if c = course
                then (c, d\<lparr>details := details d @
                             [(row_assessment_criteria row, or_0 (row_score row),
                               or_0 (row_maximum_score row))]\<rparr>)
                else (c, d)) cd1)"

definition course_details ::
  "detailed_result_row list \<Rightarrow> (string option \<times> course_data) list" where
  "course_details rows = foldl course_details_add [] rows"

definition new_subject :: "string option \<times> course_data \<Rightarrow> subject_row" where
  "new_subject item =
     \<lparr>subject = fst item, total_score = or_0 (cd_total_score (snd item)),
      grade = or_empty (cd_grade (snd item)), subject_position = [],
      class_highest_score = 0, class_lowest_score = 0, class_average_score = 0\<rparr>"

definition new_component :: "detailed_result_row \<Rightarrow> component_row" where
  "new_component row =
     \<lparr>criteria = row_assessment_criteria row, score_obtained = or_0 (row_score row),
      max_score = or_0 (row_maximum_score row), component_subject = row_course row\<rparr>"

text \<open>
  Step 7: class statistics and the position in the subject. \<open>max\<close> and \<open>min\<close> are called
  on a non-empty list only (the source guards them with \<open>if class_scores\<close>); the value
  given here for the empty list is never used. The scores come from the query as floats,
  so \<open>float(s[0])\<close> is the score itself.
\<close>

fun py_max :: "rat list \<Rightarrow> rat" where
  "py_max [] = 0"
| "py_max (x # xs) = foldl max x xs"

fun py_min :: "rat list \<Rightarrow> rat" where
  "py_min [] = 0"
| "py_min (x # xs) = foldl min x xs"

fun position_loop :: "rat list \<Rightarrow> rat \<Rightarrow> nat \<Rightarrow> nat" where
  "position_loop [] current_student_score position = position"
| "position_loop (score_value # rest) current_student_score position =
     position_loop rest current_student_score
       (if score_value > current_student_score then position + 1 else position)"

definition class_stats_row :: "database \<Rightarrow> school_term_result \<Rightarrow> subject_row \<Rightarrow> subject_row" where
  "class_stats_row db doc subject_row =
     (if truthy (student_group doc) \<and> truthy (subject subject_row) then
        (let scores_list = class_scores db (student_group doc) (subject subject_row)
                             (assessment_group doc) (academic_term doc) (academic_year doc)
         in if scores_list \<noteq> [] then
              (let current_student_score = or_0 (Some (total_score subject_row))
               in subject_row
                    \<lparr>class_highest_score := py_max scores_list,
                     class_lowest_score := py_min scores_list,
                     class_average_score :=
                       py_round2 (py_div (py_sum scores_list) (of_nat (length scores_list))),
                     subject_position := str_nat (position_loop scores_list current_student_score 1)\<rparr>)
            else subject_row)
      else subject_row)"

definition class_stats :: "database \<Rightarrow> school_term_result \<Rightarrow> school_term_result" where
  "class_stats db doc = doc\<lparr>subjects := map (class_stats_row db doc) (subjects doc)\<rparr>"

text \<open>Step 8: totals and the term average.\<close>

definition overall_totals :: "school_term_result \<Rightarrow> school_term_result" where
  "overall_totals doc =
     (let total_marks = py_sum (map (\<lambda>s. or_0 (Some (total_score s))) (subjects doc));
          max_marks = py_sum (map (\<lambda>c. or_0 (Some (max_score c))) (assessment_components doc));
          doc1 = doc\<lparr>total_marks_obtained := Some total_marks, total_max_marks := Some max_marks\<rparr>
      in if max_marks > 0
         then doc1\<lparr>term_average := Some (py_round2 (py_mul (py_div total_marks max_marks) 100))\<rparr>
         else doc1)"

text \<open>Step 9: the overall grade. The loop over the bands stops at the first match.\<close>

fun scan_grading_scale :: "grading_scale_row list \<Rightarrow> rat \<Rightarrow> string option \<Rightarrow> string option" where
  "scan_grading_scale [] avg overall = overall"
| "scan_grading_scale (grade_row # rest) avg overall =
     (let min_pct = or_0 (min_percentage grade_row);
          max_pct = or_100 (max_percentage grade_row)
      in if min_pct \<le> avg \<and> avg \<le> max_pct then grade_code grade_row
         else scan_grading_scale rest avg overall)"

definition fallback_grade :: "rat \<Rightarrow> string" where
  "fallback_grade avg =
     (if avg \<ge> 80 then ''A'' else if avg \<ge> 70 then ''B'' else if avg \<ge> 60 then ''C''
      else if avg \<ge> 50 then ''D'' else ''F'')"

definition overall_grade_step ::
  "database \<Rightarrow> school_term_result \<Rightarrow> event list \<times> school_term_result" where
  "overall_grade_step db doc =
     (case term_average doc of
        None \<Rightarrow> ([], doc)
      | Some avg \<Rightarrow>
          if avg = 0 then ([], doc)
          else (case get_school_settings db of
                  Inl e \<Rightarrow> ([LogError ''Error calculating overall grade: '' e],
                            doc\<lparr>overall_grade := Some ''N/A''\<rparr>)
                | Inr school_settings \<Rightarrow>
                    if overall_grading_scale school_settings \<noteq> []
                    then ([], doc\<lparr>overall_grade :=
                                   scan_grading_scale (overall_grading_scale school_settings)
                                     avg (Some ''N/A'')\<rparr>)
                    else ([], doc\<lparr>overall_grade := Some (fallback_grade avg)\<rparr>)))"

text \<open>
  Step 10: the two positions. Comparing a NULL total with a number raises \<open>TypeError\<close>.
\<close>

fun count_position :: "(string option \<times> rat option) list \<Rightarrow> rat \<Rightarrow> nat \<Rightarrow> error + nat" where
  "count_position [] student_total_marks position = Inr position"
| "count_position (total_row # rest) student_total_marks position =
     (case snd total_row of
        None \<Rightarrow> Inl TypeError
      | Some total_sum \<Rightarrow>
          count_position rest student_total_marks
            (if total_sum > student_total_marks then position + 1 else position))"

definition class_arm_position_step :: "database \<Rightarrow> school_term_result \<Rightarrow> error + school_term_result" where
  "class_arm_position_step db doc =
     (let totals = class_arm_totals db (student_group doc) (assessment_group doc)
                     (academic_term doc) (academic_year doc)
      in if totals \<noteq> [] then
           (case count_position totals (or_0 (total_marks_obtained doc)) 1 of
              Inl e \<Rightarrow> Inl e
            | Inr arm_position \<Rightarrow> Inr (doc\<lparr>class_arm_position := Some arm_position\<rparr>))
         else Inr doc)"

definition class_position_step :: "database \<Rightarrow> school_term_result \<Rightarrow> error + school_term_result" where
  "class_position_step db doc =
     (let program = get_program db (student_group doc)
      in if truthy program then
           (let totals = class_totals db program (academic_year doc) (academic_term doc)
                           (assessment_group doc)
            in if totals \<noteq> [] then
                 (case count_position totals (or_0 (total_marks_obtained doc)) 1 of
                    Inl e \<Rightarrow> Inl e
                  | Inr overall_position \<Rightarrow> Inr (doc\<lparr>class_position := Some overall_position\<rparr>))
               else Inr doc)
         else Inr doc)"

definition positions :: "database \<Rightarrow> school_term_result \<Rightarrow> error + school_term_result" where
  "positions db doc =
     (if truthy (student_group doc) then
        (case class_arm_position_step db doc of
           Inl e \<Rightarrow> Inl e
         | Inr doc1 \<Rightarrow> class_position_step db doc1)
      else Inr doc)"

text \<open>
  \<open>populate_student_result(doc)\<close>: the notices and log entries it emits, and the populated
  document or the exception that leaves the function.
\<close>

definition populate_results ::
  "database \<Rightarrow> school_term_result \<Rightarrow> detailed_result_row list \<Rightarrow>
   event list \<times> (error + school_term_result)" where
  "populate_results db doc rows =
     (let doc1 = doc\<lparr>subjects := map new_subject (course_details rows),
                     assessment_components := map new_component rows\<rparr>;
          doc2 = class_stats db doc1;
          doc3 = overall_totals doc2;
          (out, doc4) = overall_grade_step db doc3
      in (out, positions db doc4))"

definition populate_student_result ::
  "database \<Rightarrow> school_term_result \<Rightarrow> event list \<times> (error + school_term_result)" where
  "populate_student_result db doc =
     (case get_student db (student doc) of
        Inl e \<Rightarrow> ([], Inl e)
      | Inr student_doc \<Rightarrow>
          (case get_academic_term db (academic_term doc) of
             Inl e \<Rightarrow> ([], Inl e)
           | Inr term_doc \<Rightarrow>
               (let doc1 = doc\<lparr>term_start_date := at_term_start_date term_doc,
                               term_end_date := at_term_end_date term_doc,
                               gender := s_gender student_doc,
                               student_admission_id := Some (s_name student_doc)\<rparr>;
                    (out1, doc2) = resolve_group db doc1;
                    rows = detailed_results db doc2;
                    doc3 = doc2\<lparr>subjects := [], assessment_components := []\<rparr>
                in if rows \<noteq> [] then
                     (let (out2, r) = populate_results db doc3 rows in (out1 @ out2, r))
                   else
                     (out1 @ [Msgprint (''No Assessment Results found for student '' @
                                         str_opt (student doc))],
                      Inr doc3))))"

section \<open>The batch generator\<close>

text \<open>\<open>frappe.new_doc("School Term Result")\<close> and the four assignments of the loop body.\<close>

definition new_doc :: school_term_result where
  "new_doc =
     \<lparr>student = None, assessment_group = None, academic_year = None, academic_term = None,
      term_start_date = None, term_end_date = None, gender = None,
      student_admission_id = None, student_group = None,
      number_of_students_in_class_group = None, number_of_students_in_class = None,
      subjects = [], assessment_components = [], total_marks_obtained = None,
      total_max_marks = None, term_average = None, overall_grade = None,
      class_arm_position = None, class_position = None\<rparr>"

definition result_stub :: "generator_row \<Rightarrow> string option \<Rightarrow> school_term_result" where
  "result_stub generator_doc student_id =
     new_doc\<lparr>student := student_id,
             assessment_group := gen_assessment_group generator_doc,
             academic_year := gen_academic_year generator_doc,
             academic_term := gen_academic_term generator_doc\<rparr>"

text \<open>
  The loop over the students: an exception of the populator leaves the loop, after the
  writes of the students before.
\<close>

fun generate_loop ::
  "database \<Rightarrow> generator_row \<Rightarrow> student_group_student_row list \<Rightarrow> event list \<times> (error + unit)" where
  "generate_loop db generator_doc [] = ([], Inr ())"
| "generate_loop db generator_doc (entry # rest) =
     (case populate_student_result db (result_stub generator_doc (sgs_student entry)) of
        (out, Inl e) \<Rightarrow> (out, Inl e)
      | (out, Inr result_doc) \<Rightarrow>
          (case generate_loop db generator_doc rest of
             (out', r) \<Rightarrow> (out @ [Insert result_doc, Commit] @ out', r)))"

definition required_message :: string where
  "required_message = ''Assessment Group, Academic Year, Academic Term, and Student Group are required.''"

definition generate_class_results :: "database \<Rightarrow> string \<Rightarrow> event list \<times> (error + unit)" where
  "generate_class_results db docname =
     (case get_generator db docname of
        Inl e \<Rightarrow> ([], Inl e)
      | Inr generator_doc \<Rightarrow>
          if \<not> (truthy (gen_assessment_group generator_doc) \<and>
                 truthy (gen_academic_year generator_doc) \<and>
                 truthy (gen_academic_term generator_doc) \<and>
                 truthy (gen_student_group generator_doc))
          then ([], Inl (ValidationError required_message))
          else
            (let students = students_of_group db (gen_student_group generator_doc)
             in if students = [] then
                  ([Msgprint (''No students found in '' @
                              str_opt (gen_student_group generator_doc))], Inr ())
                else
                  (case generate_loop db generator_doc students of
                     (out, Inl e) \<Rightarrow> (out, Inl e)
                   | (out, Inr u) \<Rightarrow>
                       (out @ [Msgprint (''Generated results for '' @ str_nat (length students) @
                                         '' students in '' @
                                         str_opt (gen_student_group generator_doc) @ ''.'')],
                        Inr ()))))"

text \<open>The records a trace has written, and the ones it has committed.\<close>

fun inserted :: "event list \<Rightarrow> school_term_result list" where
  "inserted [] = []"
| "inserted (Insert d # es) = d # inserted es"
| "inserted (_ # es) = inserted es"

fun committed_from :: "school_term_result list \<Rightarrow> event list \<Rightarrow> school_term_result list" where
  "committed_from pending [] = []"
| "committed_from pending (Insert d # es) = committed_from (pending @ [d]) es"
| "committed_from pending (Commit # es) = pending @ committed_from [] es"
| "committed_from pending (_ # es) = committed_from pending es"

definition committed :: "event list \<Rightarrow> school_term_result list" where
  "committed es = committed_from [] es"

fun is_write :: "event \<Rightarrow> bool" where
  "is_write (Insert d) = True"
| "is_write Commit = True"
| "is_write _ = False"

section \<open>The claim's reading of a grading band\<close>

text \<open>
  The specification selects the first band with \<open>min% \<le> average \<le> max%\<close>. Read on the
  stored values, with no default for a bound that is unset, this is:
\<close>

definition band_contains :: "grading_scale_row \<Rightarrow> rat \<Rightarrow> bool" where
  "band_contains band avg =
     (case (min_percentage band, max_percentage band) of
        (Some lo, Some hi) \<Rightarrow> lo \<le> avg \<and> avg \<le> hi
      | _ \<Rightarrow> False)"

section \<open>The claim's reading of the totals of a group\<close>






section \<open>Example data\<close>

text \<open>
  One class \<open>G1\<close> of the program \<open>P1\<close> with four students. S1 and S2 score 90 in Math, S3
  scores 80, S4 has no assessment result. S5 is in no group and scores 0 of 100.
\<close>

definition demo_result :: "string \<Rightarrow> string \<Rightarrow> string \<Rightarrow> rat \<Rightarrow> assessment_result_row" where
  "demo_result n st c t =
     \<lparr>ar_name = n, ar_student = Some st, ar_course = Some c,
      ar_academic_year = Some ''2025'', ar_academic_term = Some ''Term 1'',
      ar_assessment_group = Some ''Exams'', ar_docstatus = 1,
      ar_total_score = Some t, ar_grade = Some ''A''\<rparr>"

definition demo_detail :: "string \<Rightarrow> nat \<Rightarrow> string \<Rightarrow> rat \<Rightarrow> rat \<Rightarrow> assessment_result_detail_row" where
  "demo_detail p i c sc mx =
     \<lparr>ard_parent = Some p, ard_idx = i, ard_assessment_criteria = Some c,
      ard_score = Some sc, ard_maximum_score = Some mx\<rparr>"

definition demo_member :: "string \<Rightarrow> student_group_student_row" where
  "demo_member st = \<lparr>sgs_parent = Some ''G1'', sgs_student = Some st\<rparr>"

definition demo_enrollment :: "string \<Rightarrow> program_enrollment_row" where
  "demo_enrollment st =
     \<lparr>pe_student = Some st, pe_program = Some ''P1'', pe_academic_year = Some ''2025'',
      pe_academic_term = Some ''Term 1'', pe_docstatus = 1\<rparr>"

definition demo_band :: "rat \<Rightarrow> rat \<Rightarrow> string \<Rightarrow> grading_scale_row" where
  "demo_band lo hi code = \<lparr>min_percentage = Some lo, max_percentage = Some hi, grade_code = Some code\<rparr>"

definition demo_settings :: "grading_scale_row list \<Rightarrow> school_settings" where
  "demo_settings bands =
     \<lparr>overall_grading_scale = bands, assessment_criteria_item = [\<lparr>criteria_name = Some ''CA''\<rparr>]\<rparr>"

definition demo_db :: database where
  "demo_db =
     \<lparr>tabStudent = [\<lparr>s_name = ''S1'', s_gender = Some ''Female''\<rparr>,
                    \<lparr>s_name = ''S2'', s_gender = Some ''Male''\<rparr>,
                    \<lparr>s_name = ''S3'', s_gender = None\<rparr>,
                    \<lparr>s_name = ''S4'', s_gender = None\<rparr>,
                    \<lparr>s_name = ''S5'', s_gender = None\<rparr>],
      tabAcademic_Term = [\<lparr>at_name = ''Term 1'', at_term_start_date = Some ''2025-01-06'',
                           at_term_end_date = Some ''2025-03-28''\<rparr>],
      tabStudent_Group = [\<lparr>sg_name = ''G1'', sg_program = Some ''P1''\<rparr>],
      tabStudent_Group_Student =
        [demo_member ''S1'', demo_member ''S2'', demo_member ''S3'', demo_member ''S4''],
      tabProgram_Enrollment =
        [demo_enrollment ''S1'', demo_enrollment ''S2'', demo_enrollment ''S3'',
         demo_enrollment ''S4''],
      tabAssessment_Result =
        [demo_result ''AR1'' ''S1'' ''Math'' 90, demo_result ''AR2'' ''S2'' ''Math'' 90,
         demo_result ''AR3'' ''S3'' ''Math'' 80, demo_result ''AR5'' ''S5'' ''Math'' 0],
      tabAssessment_Result_Detail =
        [demo_detail ''AR1'' 1 ''CA'' 35 40, demo_detail ''AR1'' 2 ''Exam'' 55 60,
         demo_detail ''AR2'' 1 ''CA'' 30 40, demo_detail ''AR2'' 2 ''Exam'' 60 60,
         demo_detail ''AR3'' 1 ''CA'' 30 40, demo_detail ''AR3'' 2 ''Exam'' 50 60,
         demo_detail ''AR5'' 1 ''CA'' 0 40, demo_detail ''AR5'' 2 ''Exam'' 0 60],
      tabGenerator =
        [\<lparr>gen_name = ''GEN1'', gen_assessment_group = Some ''Exams'',
          gen_academic_year = Some ''2025'', gen_academic_term = Some ''Term 1'',
          gen_student_group = Some ''G1''\<rparr>,
         \<lparr>gen_name = ''GEN2'', gen_assessment_group = Some ''Exams'',
          gen_academic_year = Some ''2025'', gen_academic_term = Some ''Term 1'',
          gen_student_group = None\<rparr>],
      tabSchool_Settings =
        Some (demo_settings [demo_band 80 100 ''A'', demo_band 0 79 ''B''])\<rparr>"

definition demo_stub :: "string \<Rightarrow> school_term_result" where
  "demo_stub st =
     new_doc\<lparr>student := Some st, assessment_group := Some ''Exams'',
             academic_year := Some ''2025'', academic_term := Some ''Term 1''\<rparr>"

definition demo_subject :: "rat \<Rightarrow> string \<Rightarrow> subject_row" where
  "demo_subject t pos =
     \<lparr>subject = Some ''Math'', total_score = t, grade = ''A'', subject_position = pos,
      class_highest_score = 90, class_lowest_score = 80, class_average_score = py_float (8667 / 100)\<rparr>"

definition demo_populated ::
  "string \<Rightarrow> string option \<Rightarrow> rat \<Rightarrow> rat \<Rightarrow> rat \<Rightarrow> string \<Rightarrow> nat \<Rightarrow> school_term_result" where
  "demo_populated st g ca exam t pos_text pos =
     \<lparr>student = Some st, assessment_group = Some ''Exams'',
      academic_year = Some ''2025'', academic_term = Some ''Term 1'',
      term_start_date = Some ''2025-01-06'', term_end_date = Some ''2025-03-28'',
      gender = g, student_admission_id = Some st, student_group = Some ''G1'',
      number_of_students_in_class_group = Some 4, number_of_students_in_class = Some 4,
      subjects = [demo_subject t pos_text],
      assessment_components =
        [\<lparr>criteria = Some ''CA'', score_obtained = ca, max_score = 40,
          component_subject = Some ''Math''\<rparr>,
         \<lparr>criteria = Some ''Exam'', score_obtained = exam, max_score = 60,
          component_subject = Some ''Math''\<rparr>],
      total_marks_obtained = Some t, total_max_marks = Some 100,
      term_average = Some t, overall_grade = Some ''A'',
      class_arm_position = Some pos, class_position = Some pos\<rparr>"

definition demo_S1 :: school_term_result where
  "demo_S1 = demo_populated ''S1'' (Some ''Female'') 35 55 90 ''1'' 1"


definition demo_S3 :: school_term_result where
  "demo_S3 = demo_populated ''S3'' None 30 50 80 ''3'' 3"

definition demo_S4 :: school_term_result where
  "demo_S4 =
     (demo_stub ''S4'')
       \<lparr>term_start_date := Some ''2025-01-06'', term_end_date := Some ''2025-03-28'',
        student_admission_id := Some ''S4'', student_group := Some ''G1'',
        number_of_students_in_class_group := Some 4, number_of_students_in_class := Some 4\<rparr>"

definition demo_S5 :: school_term_result where
  "demo_S5 =
     (demo_stub ''S5'')
       \<lparr>term_start_date := Some ''2025-01-06'', term_end_date := Some ''2025-03-28'',
        student_admission_id := Some ''S5'',
        subjects := [\<lparr>subject = Some ''Math'', total_score = 0, grade = ''A'',
                      subject_position = [], class_highest_score = 0,
                      class_lowest_score = 0, class_average_score = 0\<rparr>],
        assessment_components :=
          [\<lparr>criteria = Some ''CA'', score_obtained = 0, max_score = 40,
            component_subject = Some ''Math''\<rparr>,
           \<lparr>criteria = Some ''Exam'', score_obtained = 0, max_score = 60,
            component_subject = Some ''Math''\<rparr>],
        total_marks_obtained := Some 0, total_max_marks := Some 100, term_average := Some 0\<rparr>"

text \<open>The example database with another grading scale.\<close>

definition demo_db_with_scale :: "grading_scale_row list \<Rightarrow> database" where
  "demo_db_with_scale bands = demo_db\<lparr>tabSchool_Settings := Some (demo_settings bands)\<rparr>"

text \<open>
  A record that was populated before: it carries totals and an average from the earlier
  run.
\<close>

definition demo_stale :: "string \<Rightarrow> school_term_result" where
  "demo_stale st =
     (demo_stub st)\<lparr>total_marks_obtained := Some 10, total_max_marks := Some 50,
                     term_average := Some 20\<rparr>"

text \<open>The example database where no component of S1 has a maximum score.\<close>

definition demo_db_no_max :: database where
  "demo_db_no_max =
     demo_db\<lparr>tabAssessment_Result_Detail :=
               [demo_detail ''AR1'' 1 ''CA'' 35 0, demo_detail ''AR1'' 2 ''Exam'' 55 0]\<rparr>"



text \<open>What the populator makes of these inputs.\<close>

definition demo_S4_stale :: school_term_result where
  "demo_S4_stale =
     demo_S4\<lparr>total_marks_obtained := Some 10, total_max_marks := Some 50,
             term_average := Some 20\<rparr>"

definition demo_S1_no_max :: school_term_result where
  "demo_S1_no_max =
     demo_S1\<lparr>assessment_components :=
               [\<lparr>criteria = Some ''CA'', score_obtained = 35, max_score = 0,
                 component_subject = Some ''Math''\<rparr>,
                \<lparr>criteria = Some ''Exam'', score_obtained = 55, max_score = 0,
                 component_subject = Some ''Math''\<rparr>],
             total_max_marks := Some 0, term_average := Some 20, overall_grade := Some ''B''\<rparr>"




section \<open>Properties\<close>

subsection \<open>Floats\<close>

lemma round_half_even_minus: "round_half_even (- x) = - round_half_even x"
proof (cases "x = of_int \<lfloor>x\<rfloor>")
  case True
  then obtain n where n: "x = of_int n" ..
  show ?thesis unfolding n round_half_even_def by (simp flip: of_int_minus)
next
  case False
  then have fl: "\<lfloor>- x\<rfloor> = - \<lfloor>x\<rfloor> - 1"
    by (metis ceiling_altdef ceiling_def minus_diff_eq minus_minus uminus_add_conv_diff add.commute)
  have d: "0 < x - of_int \<lfloor>x\<rfloor>" "x - of_int \<lfloor>x\<rfloor> < 1"
    using False by linarith+
  show ?thesis
    unfolding round_half_even_def Let_def fl using d
    by (auto simp: algebra_simps)
qed

lemma binade_minus: "binade (- x) = binade x"
  by (simp add: binade_def)

lemma py_float_minus: "py_float (- x) = - py_float x"
  by (simp add: py_float_def binade_minus round_half_even_minus Let_def)

lemma py_float_0: "py_float 0 = 0"
  by (simp add: py_float_def)

text \<open>
  When every partial sum is a float, no addition rounds: both ways of summing give the
  exact sum, and the compensation stays 0.
\<close>

lemma neumaier_exact:
  "py_float f = f \<Longrightarrow> exact_sums f xs \<Longrightarrow> neumaier xs f 0 = f + sum_list xs"
proof (induction xs arbitrary: f)
  case Nil
  then show ?case by simp
next
  case (Cons x xs)
  from Cons.prems have x: "py_float x = x" and t: "py_float (f + x) = f + x"
    and rest: "exact_sums (f + x) xs"
    by simp_all
  have nx: "py_float (- x) = - x" and nf: "py_float (- f) = - f"
    using x Cons.prems(1) by (simp_all add: py_float_minus)
  have c: "(if \<bar>f\<bar> \<ge> \<bar>x\<bar> then py_add 0 (py_add (py_sub f (f + x)) x)
            else py_add 0 (py_add (py_sub x (f + x)) f)) = 0"
    by (simp add: py_add_def py_sub_def nx nf py_float_0)
  have "neumaier (x # xs) f 0 = neumaier xs (f + x) 0"
    using c by (simp add: Let_def py_add_def t)
  also have "\<dots> = f + x + sum_list xs"
    using t rest by (rule Cons.IH)
  finally show ?case by simp
qed

lemma py_sum_compensated_exact: "exact_sums 0 xs \<Longrightarrow> py_sum_compensated xs = sum_list xs"
proof (cases xs)
  case Nil
  then show ?thesis by simp
next
  case (Cons x rest)
  assume "exact_sums 0 xs"
  with Cons have x: "py_float x = x" and rest: "exact_sums x rest"
    by simp_all
  from neumaier_exact [OF x rest] show ?thesis
    by (simp add: Cons py_add_def x)
qed

lemma foldl_py_add_exact: "exact_sums f xs \<Longrightarrow> foldl py_add f xs = f + sum_list xs"
  by (induction xs arbitrary: f) (simp_all add: py_add_def)

lemma py_sum_exact: "exact_sums 0 xs \<Longrightarrow> py_sum xs = sum_list xs"
  using foldl_py_add_exact [of 0 xs] by (simp add: py_sum_def)

lemma py_sum_Nil [simp]: "py_sum [] = 0"
  by (simp add: py_sum_def)

text \<open>
  The decimal 0.1 is not a float; the float nearest to it is a little above. Ten of them
  sum to a little less than 1, and to 1 with the compensation. A quotient that the exact
  arithmetic puts on a tie between two hundredths is not on it as a float: 23 of 160
  marks are 14.375 per cent exactly and 14.37 as the interpreter rounds them, and the
  mean 0.025 of forty scores of which one is 1 rounds to 0.03.
\<close>

lemma py_float_tenth: "py_float (1 / 10) = 3602879701896397 / 36028797018963968"
  by code_simp

lemma py_sum_tenths:
  "py_sum (replicate 10 (py_float (1 / 10))) = 9007199254740991 / 9007199254740992"
  "py_sum_compensated (replicate 10 (py_float (1 / 10))) = 1"
  by code_simp+

lemma py_round2_of_quotients:
  "round2 (23 / 160 * 100) = 1438 / 100"
  "py_round2 (py_mul (py_div 23 160) 100) = py_float (1437 / 100)"
  "round2 (sum_list (1 # replicate 39 0) / 40) = 2 / 100"
  "py_round2 (py_div (py_sum (1 # replicate 39 0)) (of_nat (length (1 # replicate 39 (0 :: rat))))) =
     py_float (3 / 100)"
  by code_simp+

lemma or_0_Some [simp]: "or_0 (Some x) = x"
  by simp

lemma position_loop_count:
  "position_loop xs c p = p + length (filter (\<lambda>s. s > c) xs)"
  by (induction xs arbitrary: p) auto

lemma foldl_max_Max: "foldl max x xs = Max (set (x # xs))"
proof -
  have "foldl max x xs = fold max xs x"
    by (induction xs arbitrary: x) (simp_all add: max.commute)
  then show ?thesis by (simp only: Max.set_eq_fold)
qed

lemma foldl_min_Min: "foldl min x xs = Min (set (x # xs))"
proof -
  have "foldl min x xs = fold min xs x"
    by (induction xs arbitrary: x) (simp_all add: min.commute)
  then show ?thesis by (simp only: Min.set_eq_fold)
qed

lemma py_max_Max: "xs \<noteq> [] \<Longrightarrow> py_max xs = Max (set xs)"
  by (cases xs) (simp_all only: py_max.simps foldl_max_Max)

lemma py_min_Min: "xs \<noteq> [] \<Longrightarrow> py_min xs = Min (set xs)"
  by (cases xs) (simp_all only: py_min.simps foldl_min_Min)


lemma count_position_total:
  "\<forall>r \<in> set rows. snd r \<noteq> None \<Longrightarrow> \<exists>q. count_position rows stm p = Inr q"
  by (induction rows arbitrary: p) (auto split: option.splits)

lemma class_stats_row_keeps:
  "subject (class_stats_row db d sr) = subject sr"
  "total_score (class_stats_row db d sr) = total_score sr"
  "grade (class_stats_row db d sr) = grade sr"
  by (simp_all add: class_stats_row_def Let_def)

lemma class_stats_row_cong:
  "student_group d1 = student_group d2 \<Longrightarrow> assessment_group d1 = assessment_group d2 \<Longrightarrow>
   academic_term d1 = academic_term d2 \<Longrightarrow> academic_year d1 = academic_year d2 \<Longrightarrow>
   class_stats_row db d1 sr = class_stats_row db d2 sr"
  by (simp add: class_stats_row_def)

lemma detailed_results_cong:
  "student d1 = student d2 \<Longrightarrow> assessment_group d1 = assessment_group d2 \<Longrightarrow>
   academic_term d1 = academic_term d2 \<Longrightarrow> academic_year d1 = academic_year d2 \<Longrightarrow>
   detailed_results db d1 = detailed_results db d2"
  by (simp add: detailed_results_def student_results_def)

lemma resolve_group_frame:
  "snd (resolve_group db d) =
     d\<lparr>student_group := (case groups_of_student db (student d) of
                            [] \<Rightarrow> student_group d | r # rs \<Rightarrow> sgs_parent r),
       number_of_students_in_class_group :=
         number_of_students_in_class_group (snd (resolve_group db d)),
       number_of_students_in_class := number_of_students_in_class (snd (resolve_group db d))\<rparr>"
  by (cases "groups_of_student db (student d)") (simp_all add: resolve_group_def Let_def)

lemma overall_totals_frame:
  "overall_totals d =
     d\<lparr>total_marks_obtained := Some (py_sum (map total_score (subjects d))),
       total_max_marks := Some (py_sum (map max_score (assessment_components d))),
       term_average :=
         (if 0 < py_sum (map max_score (assessment_components d))
          then Some (py_round2 (py_mul (py_div (py_sum (map total_score (subjects d))) (py_sum (map max_score (assessment_components d)))) 100))
          else term_average d)\<rparr>"
  by (simp add: overall_totals_def Let_def)

lemma overall_grade_step_frame:
  "snd (overall_grade_step db d) = d\<lparr>overall_grade := overall_grade (snd (overall_grade_step db d))\<rparr>"
  by (simp add: overall_grade_step_def split: option.splits sum.splits)

lemma class_arm_position_step_frame:
  "class_arm_position_step db d = Inr d' \<Longrightarrow> d' = d\<lparr>class_arm_position := class_arm_position d'\<rparr>"
  by (auto simp: class_arm_position_step_def Let_def split: if_splits sum.splits)

lemma class_position_step_frame:
  "class_position_step db d = Inr d' \<Longrightarrow> d' = d\<lparr>class_position := class_position d'\<rparr>"
  by (auto simp: class_position_step_def Let_def split: if_splits sum.splits)

lemma positions_frame:
  assumes "positions db d = Inr d'"
  shows "\<exists>a c. d' = d\<lparr>class_arm_position := a, class_position := c\<rparr>"
proof (cases "truthy (student_group d)")
  case False
  with assms have "d' = d" by (simp add: positions_def)
  then have "d' = d\<lparr>class_arm_position := class_arm_position d, class_position := class_position d\<rparr>"
    by simp
  then show ?thesis by blast
next
  case True
  with assms obtain d1 where d1: "class_arm_position_step db d = Inr d1"
    and d': "class_position_step db d1 = Inr d'"
    by (auto simp: positions_def split: sum.splits)
  from class_arm_position_step_frame [OF d1] obtain a where "d1 = d\<lparr>class_arm_position := a\<rparr>"
    by blast
  moreover from class_position_step_frame [OF d'] obtain c where "d' = d1\<lparr>class_position := c\<rparr>"
    by blast
  ultimately show ?thesis by blast
qed

lemma populate_results_shape:
  assumes "populate_results db B rows = (out2, Inr doc')"
  obtains S C t g a c where
    "S = map (class_stats_row db B) (map new_subject (course_details rows))"
    "C = map new_component rows"
    "t = (if 0 < py_sum (map max_score C)
          then Some (py_round2 (py_mul (py_div (py_sum (map total_score S)) (py_sum (map max_score C))) 100))
          else term_average B)"
    "overall_grade_step db
       (B\<lparr>subjects := S, assessment_components := C,
          total_marks_obtained := Some (py_sum (map total_score S)),
          total_max_marks := Some (py_sum (map max_score C)), term_average := t\<rparr>) =
     (out2, B\<lparr>subjects := S, assessment_components := C,
          total_marks_obtained := Some (py_sum (map total_score S)),
          total_max_marks := Some (py_sum (map max_score C)), term_average := t,
          overall_grade := g\<rparr>)"
    "positions db
       (B\<lparr>subjects := S, assessment_components := C,
          total_marks_obtained := Some (py_sum (map total_score S)),
          total_max_marks := Some (py_sum (map max_score C)), term_average := t,
          overall_grade := g\<rparr>) = Inr doc'"
    "doc' = B\<lparr>subjects := S, assessment_components := C,
          total_marks_obtained := Some (py_sum (map total_score S)),
          total_max_marks := Some (py_sum (map max_score C)), term_average := t,
          overall_grade := g, class_arm_position := a, class_position := c\<rparr>"
proof -
  define S where "S = map (class_stats_row db B) (map new_subject (course_details rows))"
  define C where "C = map new_component rows"
  define t where "t = (if 0 < py_sum (map max_score C)
          then Some (py_round2 (py_mul (py_div (py_sum (map total_score S)) (py_sum (map max_score C))) 100))
          else term_average B)"
  define d1 where "d1 = B\<lparr>subjects := map new_subject (course_details rows),
                          assessment_components := map new_component rows\<rparr>"
  define d3 where "d3 = B\<lparr>subjects := S, assessment_components := C,
          total_marks_obtained := Some (py_sum (map total_score S)),
          total_max_marks := Some (py_sum (map max_score C)), term_average := t\<rparr>"
  have row: "class_stats_row db d1 = class_stats_row db B"
    by (rule ext, rule class_stats_row_cong) (simp_all add: d1_def)
  have d2: "class_stats db d1 = B\<lparr>subjects := S, assessment_components := C\<rparr>"
    by (simp add: class_stats_def row) (simp add: d1_def S_def C_def)
  have d3: "overall_totals (class_stats db d1) = d3"
    unfolding d2 by (subst overall_totals_frame) (simp add: d3_def t_def)
  obtain o4 d4 where s4: "overall_grade_step db d3 = (o4, d4)"
    by (cases "overall_grade_step db d3")
  from assms have o4: "o4 = out2" and pos: "positions db d4 = Inr doc'"
    by (simp_all add: populate_results_def Let_def d1_def [symmetric] d3 s4)
  from overall_grade_step_frame [of db d3] s4
  have "d4 = d3\<lparr>overall_grade := overall_grade d4\<rparr>" by simp
  then obtain g where 4: "d4 = d3\<lparr>overall_grade := g\<rparr>" ..
  from positions_frame [OF pos] obtain a c where
    6: "doc' = d4\<lparr>class_arm_position := a, class_position := c\<rparr>" by blast
  have f4: "overall_grade_step db d3 = (out2, d3\<lparr>overall_grade := g\<rparr>)"
    using s4 o4 4 by simp
  have f5: "positions db (d3\<lparr>overall_grade := g\<rparr>) = Inr doc'"
    using pos 4 by simp
  have f6: "doc' = d3\<lparr>overall_grade := g, class_arm_position := a, class_position := c\<rparr>"
    using 6 4 by simp
  show thesis
    by (rule that [OF S_def C_def t_def f4 [unfolded d3_def] f5 [unfolded d3_def]
          f6 [unfolded d3_def]])
qed

lemma populate_student_result_shape:
  assumes "populate_student_result db doc = (out, r)"
    and "get_student db (student doc) = Inr student_doc"
    and "get_academic_term db (academic_term doc) = Inr term_doc"
  obtains B out1 where
    "student B = student doc" "assessment_group B = assessment_group doc"
    "academic_year B = academic_year doc" "academic_term B = academic_term doc"
    "student_group B = (case groups_of_student db (student doc) of
                          [] \<Rightarrow> student_group doc | sgs0 # rest \<Rightarrow> sgs_parent sgs0)"
    "subjects B = []" "assessment_components B = []"
    "total_marks_obtained B = total_marks_obtained doc"
    "total_max_marks B = total_max_marks doc"
    "term_average B = term_average doc" "overall_grade B = overall_grade doc"
    "class_arm_position B = class_arm_position doc" "class_position B = class_position doc"
    "detailed_results db doc = [] \<Longrightarrow>
       r = Inr B \<and> out = out1 @ [Msgprint (''No Assessment Results found for student '' @
                                             str_opt (student doc))]"
    "detailed_results db doc \<noteq> [] \<Longrightarrow>
       \<exists>out2. populate_results db B (detailed_results db doc) = (out2, r) \<and> out = out1 @ out2"
    "\<forall>e \<in> set out1. \<exists>m. e = Msgprint m"
proof -
  define doc1 where "doc1 = doc\<lparr>term_start_date := at_term_start_date term_doc,
                               term_end_date := at_term_end_date term_doc,
                               gender := s_gender student_doc,
                               student_admission_id := Some (s_name student_doc)\<rparr>"
  obtain out1 doc2 where rg: "resolve_group db doc1 = (out1, doc2)"
    by (cases "resolve_group db doc1")
  from resolve_group_frame [of db doc1] rg obtain n1 n2 where
    doc2: "doc2 = doc1\<lparr>student_group := (case groups_of_student db (student doc1) of
                            [] \<Rightarrow> student_group doc1 | r # rs \<Rightarrow> sgs_parent r),
       number_of_students_in_class_group := n1, number_of_students_in_class := n2\<rparr>"
    by auto
  have notices: "\<forall>e \<in> set out1. \<exists>m. e = Msgprint m"
    using rg by (auto simp: resolve_group_def Let_def split: list.splits)
  define B where "B = doc2\<lparr>subjects := [], assessment_components := []\<rparr>"
  have rows: "detailed_results db doc2 = detailed_results db doc"
    by (rule detailed_results_cong) (simp_all add: doc2 doc1_def)
  have run: "populate_student_result db doc =
      (if detailed_results db doc \<noteq> [] then
         (let (out2, r) = populate_results db B (detailed_results db doc) in (out1 @ out2, r))
       else (out1 @ [Msgprint (''No Assessment Results found for student '' @
                                         str_opt (student doc))], Inr B))"
    by (simp add: populate_student_result_def assms(2,3) Let_def doc1_def [symmetric] rg rows
          B_def [symmetric])
  show thesis
  proof (rule that [of B out1])
    show "detailed_results db doc = [] \<Longrightarrow>
       r = Inr B \<and> out = out1 @ [Msgprint (''No Assessment Results found for student '' @
                                             str_opt (student doc))]"
      using assms(1) run by simp
    show "detailed_results db doc \<noteq> [] \<Longrightarrow>
       \<exists>out2. populate_results db B (detailed_results db doc) = (out2, r) \<and> out = out1 @ out2"
      using assms(1) run by (auto simp: Let_def split: prod.splits)
    show "\<forall>e \<in> set out1. \<exists>m. e = Msgprint m"
      by (rule notices)
  qed (simp_all add: B_def doc2 doc1_def split: list.splits)
qed

lemma populate_student_result_Inr:
  assumes "populate_student_result db doc = (out, Inr doc')"
  obtains student_doc term_doc where
    "get_student db (student doc) = Inr student_doc"
    "get_academic_term db (academic_term doc) = Inr term_doc"
  using assms by (auto simp: populate_student_result_def split: sum.splits)

lemma populated_subject:
  assumes "populate_student_result db doc = (out, Inr doc')"
    and "sr \<in> set (subjects doc')"
  obtains sr0 where "sr = class_stats_row db doc' sr0"
proof -
  from assms(1) obtain student_doc term_doc where
    g: "get_student db (student doc) = Inr student_doc"
       "get_academic_term db (academic_term doc) = Inr term_doc"
    by (rule populate_student_result_Inr)
  show thesis
  proof (rule populate_student_result_shape [OF assms(1) g], goal_cases)
    case (1 B out1)
    note B = \<open>subjects B = []\<close>
    show thesis
    proof (cases "detailed_results db doc = []")
      case True
      with 1(14) have "doc' = B" by simp
      with B assms(2) show thesis by simp
    next
      case False
      with 1(15) obtain out2 where
        run: "populate_results db B (detailed_results db doc) = (out2, Inr doc')"
        by auto
      show thesis
      proof (rule populate_results_shape [OF run], goal_cases)
        case (1 S C t g a c)
        from 1(6) have "subjects doc' = S" by simp
        with assms(2) 1(1) obtain sr0 where "sr = class_stats_row db B sr0"
          by auto
        moreover have "class_stats_row db B sr0 = class_stats_row db doc' sr0"
          by (rule class_stats_row_cong) (simp_all add: 1(6))
        ultimately show thesis using that by simp
      qed
    qed
  qed
qed

lemma class_stats_row_fields:
  assumes "truthy (student_group d)" and "truthy (subject sr0)"
    and "class_scores db (student_group d) (subject sr0) (assessment_group d)
           (academic_term d) (academic_year d) = scores"
    and "scores \<noteq> []"
  shows "class_stats_row db d sr0 =
     sr0\<lparr>class_highest_score := Max (set scores), class_lowest_score := Min (set scores),
         class_average_score := py_round2 (py_div (py_sum scores) (of_nat (length scores))),
         subject_position := str_nat (1 + length (filter (\<lambda>s. s > total_score sr0) scores))\<rparr>"
  using assms by (simp add: class_stats_row_def Let_def py_max_Max py_min_Min position_loop_count)

lemma populated_subject_fields:
  assumes "populate_student_result db doc = (out, Inr doc')"
    and "truthy (student_group doc')"
    and "sr \<in> set (subjects doc')"
    and "truthy (subject sr)"
    and "class_scores db (student_group doc') (subject sr) (assessment_group doc')
           (academic_term doc') (academic_year doc') = scores"
    and "scores \<noteq> []"
  shows "subject_position sr = str_nat (1 + length (filter (\<lambda>s. s > total_score sr) scores))"
    and "class_average_score sr = py_round2 (py_div (py_sum scores) (of_nat (length scores)))"
    and "class_highest_score sr = Max (set scores)"
    and "class_lowest_score sr = Min (set scores)"
proof -
  from populated_subject [OF assms(1,3)] obtain sr0 where sr: "sr = class_stats_row db doc' sr0" .
  have keep: "subject sr = subject sr0" "total_score sr = total_score sr0"
    by (simp_all add: sr class_stats_row_keeps)
  have "class_stats_row db doc' sr0 =
      sr0\<lparr>class_highest_score := Max (set scores), class_lowest_score := Min (set scores),
         class_average_score := py_round2 (py_div (py_sum scores) (of_nat (length scores))),
         subject_position := str_nat (1 + length (filter (\<lambda>s. s > total_score sr0) scores))\<rparr>"
    using assms(2,4,5,6) unfolding keep by (rule class_stats_row_fields)
  then have eq: "sr =
      sr0\<lparr>class_highest_score := Max (set scores), class_lowest_score := Min (set scores),
         class_average_score := py_round2 (py_div (py_sum scores) (of_nat (length scores))),
         subject_position := str_nat (1 + length (filter (\<lambda>s. s > total_score sr0) scores))\<rparr>"
    by (simp only: sr)
  show "subject_position sr = str_nat (1 + length (filter (\<lambda>s. s > total_score sr) scores))"
    unfolding keep by (subst eq) simp
  show "class_average_score sr = py_round2 (py_div (py_sum scores) (of_nat (length scores)))"
    by (subst eq) simp
  show "class_highest_score sr = Max (set scores)"
    by (subst eq) simp
  show "class_lowest_score sr = Min (set scores)"
    by (subst eq) simp
qed

lemma str_nat_1: "str_nat (Suc 0) = ''1''"
  by code_simp

subsection \<open>The example data, evaluated\<close>



lemma demo_populate_S3: "populate_student_result demo_db (demo_stub ''S3'') = ([], Inr demo_S3)"
  by code_simp


lemma demo_class_scores:
  "class_scores demo_db (Some ''G1'') (Some ''Math'') (Some ''Exams'') (Some ''Term 1'')
     (Some ''2025'') = [90, 90, 80]"
  by code_simp

lemma demo_S3_fields:
  "student_group demo_S3 = Some ''G1''" "assessment_group demo_S3 = Some ''Exams''"
  "academic_term demo_S3 = Some ''Term 1''" "academic_year demo_S3 = Some ''2025''"
  "subjects demo_S3 = [demo_subject 80 ''3'']"
  by (simp_all add: demo_S3_def demo_populated_def)

lemma demo_subject_fields:
  "subject (demo_subject t p) = Some ''Math''" "total_score (demo_subject t p) = t"
  "subject_position (demo_subject t p) = p" "class_highest_score (demo_subject t p) = 90"
  "class_lowest_score (demo_subject t p) = 80"
  "class_average_score (demo_subject t p) = py_float (8667 / 100)"
  by (simp_all add: demo_subject_def)

section \<open>The claims\<close>

text \<open>
  C2. In a populated record whose student has a group, a subject that names a course and
  has class scores (the non-null total scores of that course in the student's group, for
  the record's assessment group, term and year) gets as position 1 plus the number of
  class scores strictly above the subject's own score. A score that no class score
  exceeds gets position 1, ties with the maximum included; the scores 90, 90, 80 get the
  positions 1, 1, 3.
\<close>

theorem subject_position_is_rank:
  assumes "populate_student_result db doc = (out, Inr doc')"
    and "truthy (student_group doc')"
    and "sr \<in> set (subjects doc')"
    and "truthy (subject sr)"
    and "class_scores db (student_group doc') (subject sr) (assessment_group doc')
           (academic_term doc') (academic_year doc') = scores"
    and "scores \<noteq> []"
  shows "subject_position sr = str_nat (1 + length (filter (\<lambda>s. s > total_score sr) scores))
    \<and> ((\<forall>s \<in> set scores. s \<le> total_score sr) \<longrightarrow> subject_position sr = ''1'')
    \<and> map (\<lambda>x. position_loop [90, 90, 80] x 1) [90, 90, 80] = [1, 1, 3]"
proof -
  have 1: "subject_position sr = str_nat (1 + length (filter (\<lambda>s. s > total_score sr) scores))"
    using assms by (rule populated_subject_fields(1))
  have 2: "subject_position sr = ''1''" if "\<forall>s \<in> set scores. s \<le> total_score sr"
  proof -
    from that have "filter (\<lambda>s. s > total_score sr) scores = []"
      by (auto simp: filter_empty_conv)
    with 1 show ?thesis by (simp add: str_nat_1)
  qed
  have 3: "map (\<lambda>x. position_loop [90, 90, 80] x 1) [90, 90, 80] = [1, 1, 3]"
    by simp
  show ?thesis by (intro conjI impI 1 3) (rule 2)
qed

theorem subject_position_is_rank_witness:
  "populate_student_result demo_db (demo_stub ''S3'') = ([], Inr demo_S3)
   \<and> demo_subject 80 ''3'' \<in> set (subjects demo_S3)
   \<and> class_scores demo_db (student_group demo_S3) (subject (demo_subject 80 ''3''))
        (assessment_group demo_S3) (academic_term demo_S3) (academic_year demo_S3) = [90, 90, 80]
   \<and> subject_position (demo_subject 80 ''3'') = str_nat (1 + length (filter (\<lambda>s. s > 80) [90, 90, 80 :: rat]))
   \<and> subject_position (demo_subject 80 ''3'') = ''3''"
proof -
  have h2: "truthy (student_group demo_S3)"
    by (simp add: demo_S3_fields)
  have h3: "demo_subject 80 ''3'' \<in> set (subjects demo_S3)"
    by (simp add: demo_S3_fields)
  have h4: "truthy (subject (demo_subject 80 ''3''))"
    by (simp add: demo_subject_fields)
  have h5: "class_scores demo_db (student_group demo_S3) (subject (demo_subject 80 ''3''))
        (assessment_group demo_S3) (academic_term demo_S3) (academic_year demo_S3) = [90, 90, 80]"
    by (simp add: demo_S3_fields demo_subject_fields demo_class_scores)
  have h6: "[90, 90, 80 :: rat] \<noteq> []"
    by simp
  from subject_position_is_rank [OF demo_populate_S3 h2 h3 h4 h5 h6]
  have "subject_position (demo_subject 80 ''3'') =
      str_nat (1 + length (filter (\<lambda>s. s > total_score (demo_subject 80 ''3'')) [90, 90, 80]))"
    by (rule conjunct1)
  then have "subject_position (demo_subject 80 ''3'') =
      str_nat (1 + length (filter (\<lambda>s. s > 80) [90, 90, 80 :: rat]))"
    by (simp only: demo_subject_fields)
  with demo_populate_S3 h3 h5 show ?thesis
    by (simp add: demo_subject_fields)
qed



text \<open>
  C9. The validation hook raises its error, which names the criteria, exactly when the
  settings record exists, its list of criteria is not empty and the record's criteria is
  not in the list. In every other case it returns without error.
\<close>

theorem validate_assessment_criteria_raises_iff:
  "(validate_assessment_criteria settings_doc doc =
      Inl (ValidationError (not_configured_message (assessment_criteria doc)))) =
     (\<exists>settings. settings_doc = Some settings \<and> assessment_criteria_item settings \<noteq> [] \<and>
        assessment_criteria doc \<notin> set (map criteria_name (assessment_criteria_item settings)))
   \<and> (validate_assessment_criteria settings_doc doc = Inr ()) =
     (\<not> (\<exists>settings. settings_doc = Some settings \<and> assessment_criteria_item settings \<noteq> [] \<and>
        assessment_criteria doc \<notin> set (map criteria_name (assessment_criteria_item settings))))
   \<and> validate_assessment_criteria None doc = Inr ()
   \<and> validate_assessment_criteria
        (Some \<lparr>overall_grading_scale = bands, assessment_criteria_item = []\<rparr>) doc = Inr ()"
  by (cases settings_doc) (auto simp: validate_assessment_criteria_def Let_def)

theorem validate_assessment_criteria_witness:
  "validate_assessment_criteria (Some (demo_settings [])) \<lparr>assessment_criteria = Some ''Exam''\<rparr>
     = Inl (ValidationError (not_configured_message (Some ''Exam'')))
   \<and> validate_assessment_criteria (Some (demo_settings [])) \<lparr>assessment_criteria = Some ''CA''\<rparr>
     = Inr ()
   \<and> validate_assessment_criteria
        (Some \<lparr>overall_grading_scale = [], assessment_criteria_item = []\<rparr>)
        \<lparr>assessment_criteria = Some ''Exam''\<rparr> = Inr ()
   \<and> validate_assessment_criteria None \<lparr>assessment_criteria = Some ''Exam''\<rparr> = Inr ()"
  using validate_assessment_criteria_raises_iff
    [of "Some (demo_settings [])" "\<lparr>assessment_criteria = Some ''Exam''\<rparr>"]
   validate_assessment_criteria_raises_iff
    [of "Some (demo_settings [])" "\<lparr>assessment_criteria = Some ''CA''\<rparr>"]
   validate_assessment_criteria_raises_iff
    [of "Some \<lparr>overall_grading_scale = [], assessment_criteria_item = []\<rparr>"
        "\<lparr>assessment_criteria = Some ''Exam''\<rparr>"]
   validate_assessment_criteria_raises_iff
    [of None "\<lparr>assessment_criteria = Some ''Exam''\<rparr>"]
  by (simp add: demo_settings_def)

text \<open>
  C5. When the generator record has any of its four filters unset (or empty), batch
  generation raises the validation error and its trace is empty: nothing is inserted and
  nothing is committed.
\<close>

theorem generate_class_results_requires_filters:
  assumes "get_generator db docname = Inr generator_doc"
    and "\<not> truthy (gen_assessment_group generator_doc) \<or> \<not> truthy (gen_academic_year generator_doc)
       \<or> \<not> truthy (gen_academic_term generator_doc) \<or> \<not> truthy (gen_student_group generator_doc)"
  shows "generate_class_results db docname = ([], Inl (ValidationError required_message))
    \<and> inserted (fst (generate_class_results db docname)) = []
    \<and> committed (fst (generate_class_results db docname)) = []"
  using assms by (auto simp: generate_class_results_def committed_def)

theorem generate_class_results_requires_filters_witness:
  "get_generator demo_db ''GEN2'' =
     Inr \<lparr>gen_name = ''GEN2'', gen_assessment_group = Some ''Exams'',
          gen_academic_year = Some ''2025'', gen_academic_term = Some ''Term 1'',
          gen_student_group = None\<rparr>
   \<and> generate_class_results demo_db ''GEN2'' = ([], Inl (ValidationError required_message))
   \<and> inserted (fst (generate_class_results demo_db ''GEN2'')) = []"
proof -
  have g: "get_generator demo_db ''GEN2'' =
     Inr \<lparr>gen_name = ''GEN2'', gen_assessment_group = Some ''Exams'',
          gen_academic_year = Some ''2025'', gen_academic_term = Some ''Term 1'',
          gen_student_group = None\<rparr>"
    by code_simp
  from generate_class_results_requires_filters [OF g] g show ?thesis
    by simp
qed

lemma populated_with_results:
  assumes "populate_student_result db doc = (out, Inr doc')"
    and "detailed_results db doc \<noteq> []"
  obtains B S C t g a c D out1 out2 where
    "student B = student doc \<and> assessment_group B = assessment_group doc \<and>
     academic_year B = academic_year doc \<and> academic_term B = academic_term doc"
    "student_group B = (case groups_of_student db (student doc) of
                          [] \<Rightarrow> student_group doc | sgs0 # rest \<Rightarrow> sgs_parent sgs0)"
    "overall_grade B = overall_grade doc \<and> class_arm_position B = class_arm_position doc \<and>
     class_position B = class_position doc"
    "S = map (class_stats_row db B) (map new_subject (course_details (detailed_results db doc)))"
    "C = map new_component (detailed_results db doc)"
    "t = (if 0 < py_sum (map max_score C)
          then Some (py_round2 (py_mul (py_div (py_sum (map total_score S)) (py_sum (map max_score C))) 100))
          else term_average doc)"
    "D = B\<lparr>subjects := S, assessment_components := C,
          total_marks_obtained := Some (py_sum (map total_score S)),
          total_max_marks := Some (py_sum (map max_score C)), term_average := t\<rparr>"
    "overall_grade_step db D = (out2, D\<lparr>overall_grade := g\<rparr>)"
    "positions db (D\<lparr>overall_grade := g\<rparr>) = Inr doc'"
    "doc' = D\<lparr>overall_grade := g, class_arm_position := a, class_position := c\<rparr>"
    "out = out1 @ out2" "\<forall>e \<in> set out1. \<exists>m. e = Msgprint m"
proof -
  from assms(1) obtain student_doc term_doc where
    g: "get_student db (student doc) = Inr student_doc"
       "get_academic_term db (academic_term doc) = Inr term_doc"
    by (rule populate_student_result_Inr)
  show thesis
  proof (rule populate_student_result_shape [OF assms(1) g], goal_cases)
    case (1 B out1)
    from 1(15) assms(2) obtain out2 where
      run: "populate_results db B (detailed_results db doc) = (out2, Inr doc')"
      and out: "out = out1 @ out2"
      by auto
    show thesis
    proof (rule populate_results_shape [OF run], goal_cases)
      case (1 S C t g a c)
      note inner = 1
      define D where "D = B\<lparr>subjects := S, assessment_components := C,
          total_marks_obtained := Some (py_sum (map total_score S)),
          total_max_marks := Some (py_sum (map max_score C)), term_average := t\<rparr>"
      show thesis
      proof (rule that [where B = B and S = S and C = C and t = t and g = g and a = a and c = c
                           and D = D and ?out1.0 = out1 and ?out2.0 = out2])
        show "t = (if 0 < py_sum (map max_score C)
          then Some (py_round2 (py_mul (py_div (py_sum (map total_score S)) (py_sum (map max_score C))) 100))
          else term_average doc)"
          using inner(3) \<open>term_average B = term_average doc\<close> by simp
        show "overall_grade_step db D = (out2, D\<lparr>overall_grade := g\<rparr>)"
          unfolding D_def by (rule inner(4))
        show "positions db (D\<lparr>overall_grade := g\<rparr>) = Inr doc'"
          unfolding D_def by (rule inner(5))
        show "doc' = D\<lparr>overall_grade := g, class_arm_position := a, class_position := c\<rparr>"
          unfolding D_def by (rule inner(6))
      qed (use \<open>student B = student doc\<close> \<open>assessment_group B = assessment_group doc\<close>
            \<open>academic_year B = academic_year doc\<close> \<open>academic_term B = academic_term doc\<close>
            \<open>student_group B = (case groups_of_student db (student doc) of
                          [] \<Rightarrow> student_group doc | sgs0 # rest \<Rightarrow> sgs_parent sgs0)\<close>
            \<open>overall_grade B = overall_grade doc\<close>
            \<open>class_arm_position B = class_arm_position doc\<close>
            \<open>class_position B = class_position doc\<close>
            \<open>\<forall>e \<in> set out1. \<exists>m. e = Msgprint m\<close>
            inner(1,2) out D_def in simp_all)
    qed
  qed
qed

text \<open>
  C3, as amended. When the populator finds at least one assessment row, the populated
  record holds as total marks the sum of the total scores of its subjects and as total
  max marks the sum of the max scores of its components, both as the interpreter sums
  floats; with a positive max the term average is \<open>round(total / max * 100, 2)\<close>, and
  otherwise the term average is what it was before the run, so unset in a new record.
  When the populator finds no assessment row, the record has no subject and no
  component and the two totals and the term average are what they were before the run.
  When every partial sum is a float, as with integral marks, each sum is the exact one,
  with or without the interpreter's compensation.
\<close>

theorem overall_totals_and_average:
  assumes "populate_student_result db doc = (out, Inr doc')"
  shows "(detailed_results db doc \<noteq> [] \<longrightarrow>
           total_marks_obtained doc' = Some (py_sum (map total_score (subjects doc'))) \<and>
           total_max_marks doc' = Some (py_sum (map max_score (assessment_components doc'))) \<and>
           (0 < py_sum (map max_score (assessment_components doc')) \<longrightarrow>
              term_average doc' =
                Some (py_round2
                  (py_mul (py_div (py_sum (map total_score (subjects doc')))
                                  (py_sum (map max_score (assessment_components doc')))) 100))) \<and>
           (\<not> 0 < py_sum (map max_score (assessment_components doc')) \<longrightarrow>
              term_average doc' = term_average doc))
    \<and> (detailed_results db doc = [] \<longrightarrow>
           subjects doc' = [] \<and> assessment_components doc' = [] \<and>
           total_marks_obtained doc' = total_marks_obtained doc \<and>
           total_max_marks doc' = total_max_marks doc \<and>
           term_average doc' = term_average doc)
    \<and> (exact_sums 0 (map total_score (subjects doc')) \<longrightarrow>
           py_sum (map total_score (subjects doc')) = sum_list (map total_score (subjects doc')) \<and>
           py_sum_compensated (map total_score (subjects doc')) =
             sum_list (map total_score (subjects doc')))
    \<and> (exact_sums 0 (map max_score (assessment_components doc')) \<longrightarrow>
           py_sum (map max_score (assessment_components doc')) =
             sum_list (map max_score (assessment_components doc')) \<and>
           py_sum_compensated (map max_score (assessment_components doc')) =
             sum_list (map max_score (assessment_components doc')))"
proof -
  have with_rows: "total_marks_obtained doc' = Some (py_sum (map total_score (subjects doc'))) \<and>
        total_max_marks doc' = Some (py_sum (map max_score (assessment_components doc'))) \<and>
        (0 < py_sum (map max_score (assessment_components doc')) \<longrightarrow>
           term_average doc' =
             Some (py_round2
               (py_mul (py_div (py_sum (map total_score (subjects doc')))
                               (py_sum (map max_score (assessment_components doc')))) 100))) \<and>
        (\<not> 0 < py_sum (map max_score (assessment_components doc')) \<longrightarrow>
           term_average doc' = term_average doc)"
    if rows: "detailed_results db doc \<noteq> []"
  proof (rule populated_with_results [OF assms rows], goal_cases)
    case (1 B S C t g a c D out1 out2)
    have f: "subjects doc' = S" "assessment_components doc' = C"
      "total_marks_obtained doc' = Some (py_sum (map total_score S))"
      "total_max_marks doc' = Some (py_sum (map max_score C))"
      "term_average doc' = t"
      by (simp_all add: 1(10) 1(7))
    show ?case
      unfolding f using 1(6) by simp
  qed
  have without_rows: "subjects doc' = [] \<and> assessment_components doc' = [] \<and>
        total_marks_obtained doc' = total_marks_obtained doc \<and>
        total_max_marks doc' = total_max_marks doc \<and>
        term_average doc' = term_average doc"
    if none: "detailed_results db doc = []"
  proof -
    from assms obtain student_doc term_doc where
      g: "get_student db (student doc) = Inr student_doc"
         "get_academic_term db (academic_term doc) = Inr term_doc"
      by (rule populate_student_result_Inr)
    show ?thesis
    proof (rule populate_student_result_shape [OF assms g], goal_cases)
      case (1 B out1)
      from 1(14) none have "doc' = B" by simp
      with 1(6-10) none show ?case by simp
    qed
  qed
  show ?thesis
  proof (intro conjI)
    show "detailed_results db doc \<noteq> [] \<longrightarrow>
           total_marks_obtained doc' = Some (py_sum (map total_score (subjects doc'))) \<and>
           total_max_marks doc' = Some (py_sum (map max_score (assessment_components doc'))) \<and>
           (0 < py_sum (map max_score (assessment_components doc')) \<longrightarrow>
              term_average doc' =
                Some (py_round2
                  (py_mul (py_div (py_sum (map total_score (subjects doc')))
                                  (py_sum (map max_score (assessment_components doc')))) 100))) \<and>
           (\<not> 0 < py_sum (map max_score (assessment_components doc')) \<longrightarrow>
              term_average doc' = term_average doc)"
      using with_rows by (rule impI)
    show "detailed_results db doc = [] \<longrightarrow>
           subjects doc' = [] \<and> assessment_components doc' = [] \<and>
           total_marks_obtained doc' = total_marks_obtained doc \<and>
           total_max_marks doc' = total_max_marks doc \<and>
           term_average doc' = term_average doc"
      using without_rows by (rule impI)
    show "exact_sums 0 (map total_score (subjects doc')) \<longrightarrow>
           py_sum (map total_score (subjects doc')) = sum_list (map total_score (subjects doc')) \<and>
           py_sum_compensated (map total_score (subjects doc')) =
             sum_list (map total_score (subjects doc'))"
      by (simp add: py_sum_exact py_sum_compensated_exact)
    show "exact_sums 0 (map max_score (assessment_components doc')) \<longrightarrow>
           py_sum (map max_score (assessment_components doc')) =
             sum_list (map max_score (assessment_components doc')) \<and>
           py_sum_compensated (map max_score (assessment_components doc')) =
             sum_list (map max_score (assessment_components doc'))"
      by (simp add: py_sum_exact py_sum_compensated_exact)
  qed
qed

lemma demo_populate_S4_stale:
  "populate_student_result demo_db (demo_stale ''S4'') =
     ([Msgprint ''No Assessment Results found for student S4''], Inr demo_S4_stale)"
  by code_simp

lemma demo_populate_S1_no_max:
  "populate_student_result demo_db_no_max (demo_stale ''S1'') = ([], Inr demo_S1_no_max)"
  by code_simp

theorem overall_totals_and_average_witness:
  "populate_student_result demo_db (demo_stub ''S3'') = ([], Inr demo_S3)
   \<and> detailed_results demo_db (demo_stub ''S3'') \<noteq> []
   \<and> exact_sums 0 (map total_score (subjects demo_S3))
   \<and> exact_sums 0 (map max_score (assessment_components demo_S3))
   \<and> total_marks_obtained demo_S3 = Some (sum_list (map total_score (subjects demo_S3)))
   \<and> total_max_marks demo_S3 = Some (sum_list (map max_score (assessment_components demo_S3)))
   \<and> sum_list (map total_score (subjects demo_S3)) = 80
   \<and> sum_list (map max_score (assessment_components demo_S3)) = 100
   \<and> term_average demo_S3 = Some (py_round2 (py_mul (py_div 80 100) 100))
   \<and> term_average demo_S3 = Some 80
   \<and> populate_student_result demo_db_no_max (demo_stale ''S1'') = ([], Inr demo_S1_no_max)
   \<and> detailed_results demo_db_no_max (demo_stale ''S1'') \<noteq> []
   \<and> total_max_marks demo_S1_no_max = Some 0
   \<and> term_average demo_S1_no_max = term_average (demo_stale ''S1'')
   \<and> populate_student_result demo_db (demo_stale ''S4'') =
       ([Msgprint ''No Assessment Results found for student S4''], Inr demo_S4_stale)
   \<and> detailed_results demo_db (demo_stale ''S4'') = []
   \<and> total_marks_obtained demo_S4_stale = total_marks_obtained (demo_stale ''S4'')
   \<and> total_max_marks demo_S4_stale = total_max_marks (demo_stale ''S4'')
   \<and> term_average demo_S4_stale = term_average (demo_stale ''S4'')"
proof -
  have rows: "detailed_results demo_db (demo_stub ''S3'') \<noteq> []"
    "detailed_results demo_db_no_max (demo_stale ''S1'') \<noteq> []"
    "detailed_results demo_db (demo_stale ''S4'') = []"
    by code_simp+
  have ex: "exact_sums 0 (map total_score (subjects demo_S3))"
    "exact_sums 0 (map max_score (assessment_components demo_S3))"
    "exact_sums 0 (map max_score (assessment_components demo_S1_no_max))"
    by code_simp+
  have m: "sum_list (map total_score (subjects demo_S3)) = 80"
    "sum_list (map max_score (assessment_components demo_S3)) = 100"
    "sum_list (map max_score (assessment_components demo_S1_no_max)) = 0"
    by (simp_all add: demo_S3_def demo_S1_no_max_def demo_S1_def demo_populated_def
        demo_subject_def)
  have av: "term_average demo_S3 = Some 80"
    by (simp add: demo_S3_def demo_populated_def)
  note S3 = overall_totals_and_average [OF demo_populate_S3]
  from S3 rows(1) ex(1,2)
  have t: "total_marks_obtained demo_S3 = Some (sum_list (map total_score (subjects demo_S3)))"
    "total_max_marks demo_S3 = Some (sum_list (map max_score (assessment_components demo_S3)))"
    by simp_all
  from S3 rows(1) ex(1,2) m(1,2)
  have a: "term_average demo_S3 = Some (py_round2 (py_mul (py_div 80 100) 100))"
    by simp
  note S1 = overall_totals_and_average [OF demo_populate_S1_no_max]
  from S1 rows(2) ex(3) m(3)
  have z: "total_max_marks demo_S1_no_max = Some 0"
    "term_average demo_S1_no_max = term_average (demo_stale ''S1'')"
    by simp_all
  note S4 = overall_totals_and_average [OF demo_populate_S4_stale]
  from S4 rows(3)
  have k: "total_marks_obtained demo_S4_stale = total_marks_obtained (demo_stale ''S4'')"
    "total_max_marks demo_S4_stale = total_max_marks (demo_stale ''S4'')"
    "term_average demo_S4_stale = term_average (demo_stale ''S4'')"
    by simp_all
  from demo_populate_S3 rows ex(1,2) t m(1,2) a av demo_populate_S1_no_max z
    demo_populate_S4_stale k
  show ?thesis
    by (intro conjI)
qed

theorem overall_totals_and_average_counterexample:
  "populate_student_result demo_db (demo_stale ''S4'') =
     ([Msgprint ''No Assessment Results found for student S4''], Inr demo_S4_stale)
   \<and> subjects demo_S4_stale = [] \<and> assessment_components demo_S4_stale = []
   \<and> py_sum (map total_score (subjects demo_S4_stale)) = 0
   \<and> total_marks_obtained demo_S4_stale = Some 10
   \<and> py_sum (map max_score (assessment_components demo_S4_stale)) = 0
   \<and> total_max_marks demo_S4_stale = Some 50
   \<and> term_average demo_S4_stale = Some 20
   \<and> populate_student_result demo_db_no_max (demo_stale ''S1'') = ([], Inr demo_S1_no_max)
   \<and> py_sum (map max_score (assessment_components demo_S1_no_max)) = 0
   \<and> total_max_marks demo_S1_no_max = Some 0
   \<and> term_average demo_S1_no_max = Some 20"
proof -
  have 1: "subjects demo_S4_stale = []" "assessment_components demo_S4_stale = []"
    "total_marks_obtained demo_S4_stale = Some 10" "total_max_marks demo_S4_stale = Some 50"
    "term_average demo_S4_stale = Some 20"
    by (simp_all add: demo_S4_stale_def demo_S4_def demo_stub_def new_doc_def)
  have 2: "py_sum (map total_score (subjects demo_S4_stale)) = 0"
    "py_sum (map max_score (assessment_components demo_S4_stale)) = 0"
    by (simp_all add: 1)
  have 3: "py_sum (map max_score (assessment_components demo_S1_no_max)) = 0"
    by code_simp
  have 4: "total_max_marks demo_S1_no_max = Some 0" "term_average demo_S1_no_max = Some 20"
    by (simp_all add: demo_S1_no_max_def)
  from demo_populate_S4_stale 1(1,2) 2(1) 1(3) 2(2) 1(4,5) demo_populate_S1_no_max 3 4
  show ?thesis
    by (intro conjI)
qed

text \<open>
  C8. When the student and the academic term of the stub exist and the student has no
  assessment row, the populator returns a record with no subject and no component, and
  its last notice says that no assessment results were found.
\<close>

theorem populate_without_results:
  assumes "get_student db (student doc) = Inr student_doc"
    and "get_academic_term db (academic_term doc) = Inr term_doc"
    and "detailed_results db doc = []"
  shows "\<exists>out doc'. populate_student_result db doc = (out, Inr doc')
    \<and> subjects doc' = [] \<and> assessment_components doc' = []
    \<and> out \<noteq> []
    \<and> last out = Msgprint (''No Assessment Results found for student '' @ str_opt (student doc))
    \<and> (\<forall>e \<in> set out. \<exists>m. e = Msgprint m)"
proof -
  obtain out r where run: "populate_student_result db doc = (out, r)"
    by (cases "populate_student_result db doc")
  show ?thesis
  proof (rule populate_student_result_shape [OF run assms(1,2)], goal_cases)
    case (1 B out1)
    from 1(14) assms(3) have r: "r = Inr B"
      and out: "out = out1 @ [Msgprint (''No Assessment Results found for student '' @
                                         str_opt (student doc))]"
      by simp_all
    from run r have "populate_student_result db doc = (out, Inr B)" by simp
    moreover have "subjects B = []" "assessment_components B = []" by fact+
    moreover have "out \<noteq> []"
      "last out = Msgprint (''No Assessment Results found for student '' @ str_opt (student doc))"
      by (simp_all add: out)
    moreover have "\<forall>e \<in> set out. \<exists>m. e = Msgprint m"
      using 1(16) by (auto simp: out)
    ultimately show ?case by blast
  qed
qed

theorem populate_without_results_witness:
  "get_student demo_db (student (demo_stub ''S4'')) = Inr \<lparr>s_name = ''S4'', s_gender = None\<rparr>
   \<and> detailed_results demo_db (demo_stub ''S4'') = []
   \<and> (\<exists>out doc'. populate_student_result demo_db (demo_stub ''S4'') = (out, Inr doc')
        \<and> subjects doc' = [] \<and> assessment_components doc' = []
        \<and> last out = Msgprint ''No Assessment Results found for student S4'')"
proof -
  have s: "get_student demo_db (student (demo_stub ''S4'')) = Inr \<lparr>s_name = ''S4'', s_gender = None\<rparr>"
    by code_simp
  have t: "get_academic_term demo_db (academic_term (demo_stub ''S4'')) =
      Inr \<lparr>at_name = ''Term 1'', at_term_start_date = Some ''2025-01-06'',
           at_term_end_date = Some ''2025-03-28''\<rparr>"
    by code_simp
  have rows: "detailed_results demo_db (demo_stub ''S4'') = []"
    by code_simp
  have st: "str_opt (student (demo_stub ''S4'')) = ''S4''"
    by code_simp
  from populate_without_results [OF s t rows] s rows show ?thesis
    unfolding st by auto
qed

subsection \<open>The overall grade\<close>

lemma scan_grading_scale_find:
  "scan_grading_scale bands avg overall =
     (case find (\<lambda>band. or_0 (min_percentage band) \<le> avg \<and> avg \<le> or_100 (max_percentage band))
             bands of
        None \<Rightarrow> overall
      | Some band \<Rightarrow> grade_code band)"
  by (induction bands) (simp_all add: Let_def)

lemma overall_grade_step_graded:
  assumes "term_average d = Some avg" and "avg \<noteq> 0"
  shows "overall_grade_step db d =
     (case tabSchool_Settings db of
        None \<Rightarrow> ([LogError ''Error calculating overall grade: ''
                    (DoesNotExistError ''School Settings'' (Some ''School Settings''))],
                  d\<lparr>overall_grade := Some ''N/A''\<rparr>)
      | Some settings \<Rightarrow>
          ([], d\<lparr>overall_grade :=
                  (if overall_grading_scale settings \<noteq> []
                   then scan_grading_scale (overall_grading_scale settings) avg (Some ''N/A'')
                   else Some (fallback_grade avg))\<rparr>))"
  using assms
  by (simp add: overall_grade_step_def get_school_settings_def split: option.splits)

lemma populated_overall_grade:
  assumes "populate_student_result db doc = (out, Inr doc')"
    and "detailed_results db doc \<noteq> []"
    and "term_average doc' = Some avg" and "avg \<noteq> 0"
    and "tabSchool_Settings db = Some settings"
  shows "overall_grade doc' =
           (if overall_grading_scale settings \<noteq> []
            then scan_grading_scale (overall_grading_scale settings) avg (Some ''N/A'')
            else Some (fallback_grade avg))"
    and "\<forall>e \<in> set out. \<exists>m. e = Msgprint m"
proof -
  have "overall_grade doc' =
           (if overall_grading_scale settings \<noteq> []
            then scan_grading_scale (overall_grading_scale settings) avg (Some ''N/A'')
            else Some (fallback_grade avg)) \<and> (\<forall>e \<in> set out. \<exists>m. e = Msgprint m)"
  proof (rule populated_with_results [OF assms(1,2)], goal_cases)
    case (1 B S C t g a c D out1 out2)
    have avg: "term_average D = Some avg"
      using assms(3) by (simp add: 1(10))
    have step: "overall_grade_step db D =
        ([], D\<lparr>overall_grade :=
                  (if overall_grading_scale settings \<noteq> []
                   then scan_grading_scale (overall_grading_scale settings) avg (Some ''N/A'')
                   else Some (fallback_grade avg))\<rparr>)"
      by (simp add: overall_grade_step_graded [OF avg assms(4)] assms(5))
    from step 1(8) have out2: "out2 = []" by simp
    from step 1(8) have "overall_grade (D\<lparr>overall_grade := g\<rparr>) =
        overall_grade (D\<lparr>overall_grade :=
                  (if overall_grading_scale settings \<noteq> []
                   then scan_grading_scale (overall_grading_scale settings) avg (Some ''N/A'')
                   else Some (fallback_grade avg))\<rparr>)"
      by simp
    then have g: "g = (if overall_grading_scale settings \<noteq> []
                   then scan_grading_scale (overall_grading_scale settings) avg (Some ''N/A'')
                   else Some (fallback_grade avg))"
      by simp
    have "overall_grade doc' = g"
      by (simp add: 1(10))
    with g 1(11,12) out2 show ?case by simp
  qed
  then show "overall_grade doc' =
           (if overall_grading_scale settings \<noteq> []
            then scan_grading_scale (overall_grading_scale settings) avg (Some ''N/A'')
            else Some (fallback_grade avg))"
    and "\<forall>e \<in> set out. \<exists>m. e = Msgprint m"
    by simp_all
qed

text \<open>
  C1, as amended. When the student has assessment rows, the populated record carries a
  term average other than zero and the settings record exists, the overall grade is: with
  a non-empty grading scale, the grade code of the first band in configured order with
  \<open>min% \<le> average \<le> max%\<close>, where an unset or zero \<open>min%\<close> counts as 0 and an unset or zero
  \<open>max%\<close> counts as 100, and N/A when there is no such band; with an empty grading scale,
  A from 80, B from 70, C from 60, D from 50 and F below.
\<close>

theorem overall_grade_selection:
  assumes "populate_student_result db doc = (out, Inr doc')"
    and "detailed_results db doc \<noteq> []"
    and "term_average doc' = Some avg" and "avg \<noteq> 0"
    and "tabSchool_Settings db = Some settings"
  shows "overall_grade doc' =
     (if overall_grading_scale settings \<noteq> [] then
        (case find (\<lambda>band. or_0 (min_percentage band) \<le> avg \<and> avg \<le> or_100 (max_percentage band))
                (overall_grading_scale settings) of
           Some band \<Rightarrow> grade_code band
         | None \<Rightarrow> Some ''N/A'')
      else Some (if 80 \<le> avg then ''A'' else if 70 \<le> avg then ''B''
                 else if 60 \<le> avg then ''C'' else if 50 \<le> avg then ''D'' else ''F''))"
  unfolding populated_overall_grade(1) [OF assms] scan_grading_scale_find fallback_grade_def
  by (simp split: option.splits)

theorem overall_grade_selection_witness:
  "populate_student_result demo_db (demo_stub ''S3'') = ([], Inr demo_S3)
   \<and> detailed_results demo_db (demo_stub ''S3'') \<noteq> []
   \<and> term_average demo_S3 = Some 80
   \<and> tabSchool_Settings demo_db = Some (demo_settings [demo_band 80 100 ''A'', demo_band 0 79 ''B''])
   \<and> overall_grade demo_S3 = Some ''A''"
proof -
  have rows: "detailed_results demo_db (demo_stub ''S3'') \<noteq> []"
    by code_simp
  have avg: "term_average demo_S3 = Some 80"
    by (simp add: demo_S3_def demo_populated_def)
  have nz: "(80 :: rat) \<noteq> 0"
    by simp
  have settings: "tabSchool_Settings demo_db =
      Some (demo_settings [demo_band 80 100 ''A'', demo_band 0 79 ''B''])"
    by (simp add: demo_db_def)
  from overall_grade_selection [OF demo_populate_S3 rows avg nz settings]
  have "overall_grade demo_S3 = Some ''A''"
    by (simp add: demo_settings_def demo_band_def)
  with demo_populate_S3 rows avg settings show ?thesis
    by simp
qed

theorem overall_grade_selection_counterexample:
  "populate_student_result demo_db (demo_stub ''S5'') =
     ([Msgprint ''No Student Group found for S5''], Inr demo_S5)
   \<and> total_max_marks demo_S5 = Some 100 \<and> term_average demo_S5 = Some 0
   \<and> tabSchool_Settings demo_db = Some (demo_settings [demo_band 80 100 ''A'', demo_band 0 79 ''B''])
   \<and> find (\<lambda>band. band_contains band 0) [demo_band 80 100 ''A'', demo_band 0 79 ''B''] =
       Some (demo_band 0 79 ''B'')
   \<and> overall_grade demo_S5 = None
   \<and> populate_student_result (demo_db_with_scale [demo_band 80 0 ''A'', demo_band 0 100 ''P''])
       (demo_stub ''S1'') = ([], Inr demo_S1)
   \<and> term_average demo_S1 = Some 90
   \<and> find (\<lambda>band. band_contains band 90) [demo_band 80 0 ''A'', demo_band 0 100 ''P''] =
       Some (demo_band 0 100 ''P'')
   \<and> overall_grade demo_S1 = Some ''A''"
proof -
  have 1: "populate_student_result demo_db (demo_stub ''S5'') =
     ([Msgprint ''No Student Group found for S5''], Inr demo_S5)"
    by code_simp
  have 2: "total_max_marks demo_S5 = Some 100" "term_average demo_S5 = Some 0"
    "overall_grade demo_S5 = None"
    by (simp_all add: demo_S5_def demo_stub_def new_doc_def)
  have 3: "tabSchool_Settings demo_db =
      Some (demo_settings [demo_band 80 100 ''A'', demo_band 0 79 ''B''])"
    by (simp add: demo_db_def)
  have 4: "find (\<lambda>band. band_contains band 0) [demo_band 80 100 ''A'', demo_band 0 79 ''B''] =
       Some (demo_band 0 79 ''B'')"
    by (simp add: band_contains_def demo_band_def)
  have 5: "populate_student_result (demo_db_with_scale [demo_band 80 0 ''A'', demo_band 0 100 ''P''])
       (demo_stub ''S1'') = ([], Inr demo_S1)"
    by code_simp
  have 6: "term_average demo_S1 = Some 90" "overall_grade demo_S1 = Some ''A''"
    by (simp_all add: demo_S1_def demo_populated_def)
  have 7: "find (\<lambda>band. band_contains band 90) [demo_band 80 0 ''A'', demo_band 0 100 ''P''] =
       Some (demo_band 0 100 ''P'')"
    by (simp add: band_contains_def demo_band_def)
  from 1 2 3 4 5 6 7 show ?thesis
    by (intro conjI)
qed

text \<open>
  C10, as amended. Under the conditions of C1, when the grading scale is not empty and no
  band has \<open>min% \<le> average \<le> max%\<close>, an unset or zero \<open>min%\<close> counting as 0 and an unset or
  zero \<open>max%\<close> as 100, the overall grade is N/A and the run logs no error: it emits
  notices only. The grade step itself returns on every record with that average, with
  the grade N/A and nothing logged.
\<close>

theorem overall_grade_not_applicable:
  assumes "populate_student_result db doc = (out, Inr doc')"
    and "detailed_results db doc \<noteq> []"
    and "term_average doc' = Some avg" and "avg \<noteq> 0"
    and "tabSchool_Settings db = Some settings"
    and "overall_grading_scale settings \<noteq> []"
    and "\<forall>band \<in> set (overall_grading_scale settings).
           \<not> (or_0 (min_percentage band) \<le> avg \<and> avg \<le> or_100 (max_percentage band))"
  shows "overall_grade doc' = Some ''N/A'' \<and> (\<forall>e \<in> set out. \<exists>m. e = Msgprint m)
    \<and> (\<forall>d. term_average d = Some avg \<longrightarrow>
          overall_grade_step db d = ([], d\<lparr>overall_grade := Some ''N/A''\<rparr>))"
proof -
  from assms(7) have none: "find (\<lambda>band. or_0 (min_percentage band) \<le> avg \<and>
      avg \<le> or_100 (max_percentage band)) (overall_grading_scale settings) = None"
    by (simp add: find_None_iff)
  have "overall_grade_step db d = ([], d\<lparr>overall_grade := Some ''N/A''\<rparr>)"
    if "term_average d = Some avg" for d
    using overall_grade_step_graded [OF that assms(4), of db] assms(5,6) none
    by (simp add: scan_grading_scale_find)
  with populated_overall_grade [OF assms(1-5)] assms(6) none show ?thesis
    by (simp add: scan_grading_scale_find)
qed

theorem overall_grade_not_applicable_witness:
  "populate_student_result (demo_db_with_scale [demo_band 0 50 ''F'']) (demo_stub ''S3'') =
     ([], Inr (demo_S3\<lparr>overall_grade := Some ''N/A''\<rparr>))
   \<and> detailed_results (demo_db_with_scale [demo_band 0 50 ''F'']) (demo_stub ''S3'') \<noteq> []
   \<and> term_average (demo_S3\<lparr>overall_grade := Some ''N/A''\<rparr>) = Some 80
   \<and> overall_grade (demo_S3\<lparr>overall_grade := Some ''N/A''\<rparr>) = Some ''N/A''"
proof -
  have run: "populate_student_result (demo_db_with_scale [demo_band 0 50 ''F'']) (demo_stub ''S3'') =
     ([], Inr (demo_S3\<lparr>overall_grade := Some ''N/A''\<rparr>))"
    by code_simp
  have rows: "detailed_results (demo_db_with_scale [demo_band 0 50 ''F'']) (demo_stub ''S3'') \<noteq> []"
    by code_simp
  have avg: "term_average (demo_S3\<lparr>overall_grade := Some ''N/A''\<rparr>) = Some 80"
    by (simp add: demo_S3_def demo_populated_def)
  have nz: "(80 :: rat) \<noteq> 0"
    by simp
  have settings: "tabSchool_Settings (demo_db_with_scale [demo_band 0 50 ''F'']) =
      Some (demo_settings [demo_band 0 50 ''F''])"
    by (simp add: demo_db_with_scale_def)
  have bands: "overall_grading_scale (demo_settings [demo_band 0 50 ''F'']) \<noteq> []"
    by (simp add: demo_settings_def)
  have none: "\<forall>band \<in> set (overall_grading_scale (demo_settings [demo_band 0 50 ''F''])).
           \<not> (or_0 (min_percentage band) \<le> 80 \<and> 80 \<le> or_100 (max_percentage band))"
    by (simp add: demo_settings_def demo_band_def)
  from overall_grade_not_applicable [OF run rows avg nz settings bands none] run rows avg
  show ?thesis
    by simp
qed

theorem overall_grade_not_applicable_counterexample:
  "populate_student_result (demo_db_with_scale [demo_band 80 0 ''A'']) (demo_stub ''S1'') =
     ([], Inr demo_S1)
   \<and> term_average demo_S1 = Some 90
   \<and> find (\<lambda>band. band_contains band 90) [demo_band 80 0 ''A''] = None
   \<and> overall_grade demo_S1 = Some ''A''
   \<and> overall_grade demo_S1 \<noteq> Some ''N/A''"
proof -
  have 1: "populate_student_result (demo_db_with_scale [demo_band 80 0 ''A'']) (demo_stub ''S1'') =
     ([], Inr demo_S1)"
    by code_simp
  have 2: "term_average demo_S1 = Some 90" "overall_grade demo_S1 = Some ''A''"
    "overall_grade demo_S1 \<noteq> Some ''N/A''"
    by (simp_all add: demo_S1_def demo_populated_def)
  have 3: "find (\<lambda>band. band_contains band 90) [demo_band 80 0 ''A''] = None"
    by (simp add: band_contains_def demo_band_def)
  from 1 2 3 show ?thesis
    by (intro conjI)
qed

subsection \<open>The position in the class arm\<close>

text \<open>
  The rows of the per-student totals: one row for each student of the joined results, with
  the \<open>SUM\<close> of that student's total scores.
\<close>

lemma group_results_iff:
  "ar \<in> set (group_results db grp ag term_name year) \<longleftrightarrow>
     ar \<in> set (tabAssessment_Result db) \<and>
     (\<exists>s \<in> set (tabStudent db). sql_eq (ar_student ar) (Some (s_name s)) \<and>
        (\<exists>sgs \<in> set (tabStudent_Group_Student db).
           sql_eq (Some (s_name s)) (sgs_student sgs) \<and> sql_eq (sgs_parent sgs) grp)) \<and>
     sql_eq (ar_assessment_group ar) ag \<and> sql_eq (ar_academic_term ar) term_name \<and>
     sql_eq (ar_academic_year ar) year \<and> docstatus_in_0_1 (ar_docstatus ar)"
  unfolding group_results_def by auto

lemma totals_by_student_rows:
  "set (totals_by_student rows) =
     (\<lambda>st. (st, sql_sum (map ar_total_score (filter (\<lambda>ar. ar_student ar = st) rows)))) `
       set (map ar_student rows)"
  by (simp add: totals_by_student_def)











subsection \<open>The per-student totals, member by member\<close>

lemma concat_map_if_filter:
  "concat (map (\<lambda>x. if p x then g x else []) xs) = concat (map g (filter p xs))"
  by (induction xs) simp_all







lemma sql_eq_Some_right: "sql_eq v (Some a) \<longleftrightarrow> v = Some a"
  by (cases v) auto









lemma demo_class_arm_totals:
  "class_arm_totals demo_db (Some ''G1'') (Some ''Exams'') (Some ''Term 1'') (Some ''2025'') =
     [(Some ''S1'', Some 90), (Some ''S2'', Some 90), (Some ''S3'', Some 80)]"
  by code_simp






subsection \<open>The trace of the batch generator\<close>

lemma inserted_append: "inserted (xs @ ys) = inserted xs @ inserted ys"
  by (induction xs rule: inserted.induct) simp_all

lemma inserted_no_writes: "\<forall>e \<in> set xs. \<not> is_write e \<Longrightarrow> inserted xs = []"
  by (induction xs rule: inserted.induct) simp_all

lemma committed_from_no_writes:
  "\<forall>e \<in> set xs. \<not> is_write e \<Longrightarrow> committed_from pending (xs @ ys) = committed_from pending ys"
  by (induction pending xs rule: committed_from.induct) simp_all

lemma overall_grade_step_no_writes:
  "\<forall>e \<in> set (fst (overall_grade_step db d)). \<not> is_write e"
  by (simp add: overall_grade_step_def split: option.splits sum.splits)

lemma populate_results_no_writes:
  assumes "populate_results db B rows = (out, r)"
  shows "\<forall>e \<in> set out. \<not> is_write e"
proof -
  from assms have "out = fst (overall_grade_step db (overall_totals (class_stats db
      (B\<lparr>subjects := map new_subject (course_details rows),
         assessment_components := map new_component rows\<rparr>))))"
    by (auto simp: populate_results_def Let_def split: prod.splits)
  then show ?thesis
    by (simp add: overall_grade_step_no_writes)
qed

lemma populate_student_result_no_writes:
  assumes "populate_student_result db doc = (out, r)"
  shows "\<forall>e \<in> set out. \<not> is_write e"
proof (cases "get_student db (student doc)")
  case (Inl e)
  with assms show ?thesis by (simp add: populate_student_result_def)
next
  case student_doc: (Inr student_doc)
  show ?thesis
  proof (cases "get_academic_term db (academic_term doc)")
    case (Inl e)
    with assms student_doc show ?thesis by (simp add: populate_student_result_def)
  next
    case (Inr term_doc)
    show ?thesis
    proof (rule populate_student_result_shape [OF assms student_doc Inr], goal_cases)
      case (1 B out1)
      from 1(16) have out1: "\<forall>e \<in> set out1. \<not> is_write e" by auto
      show ?case
      proof (cases "detailed_results db doc = []")
        case True
        with 1(14) out1 show ?thesis by auto
      next
        case False
        with 1(15) obtain out2 where "populate_results db B (detailed_results db doc) = (out2, r)"
          and "out = out1 @ out2"
          by auto
        with out1 populate_results_no_writes show ?thesis by fastforce
      qed
    qed
  qed
qed

lemma populated_student:
  assumes "populate_student_result db doc = (out, Inr doc')"
  shows "student doc' = student doc"
proof (cases "detailed_results db doc = []")
  case True
  from assms(1) obtain student_doc term_doc where
    g: "get_student db (student doc) = Inr student_doc"
       "get_academic_term db (academic_term doc) = Inr term_doc"
    by (rule populate_student_result_Inr)
  show ?thesis
  proof (rule populate_student_result_shape [OF assms(1) g], goal_cases)
    case (1 B out1)
    from 1(14) True have "doc' = B" by simp
    with 1(1) show ?case by simp
  qed
next
  case False
  show ?thesis
  proof (rule populated_with_results [OF assms(1) False], goal_cases)
    case (1 B S C t g a c D out1 out2)
    have "student doc' = student B"
      by (simp add: 1(10) 1(7))
    with 1(1) show ?case by simp
  qed
qed

lemma generate_loop_runs:
  assumes "map (\<lambda>entry. populate_student_result db (result_stub g (sgs_student entry))) entries =
           map (\<lambda>(notices, d). (notices, Inr d)) runs"
  shows "generate_loop db g entries =
           (concat (map (\<lambda>(notices, d). notices @ [Insert d, Commit]) runs), Inr ())"
  using assms
proof (induction entries arbitrary: runs)
  case Nil
  then show ?case by simp
next
  case (Cons entry entries)
  then obtain notices d rest where runs: "runs = (notices, d) # rest"
    and run: "populate_student_result db (result_stub g (sgs_student entry)) = (notices, Inr d)"
    and rest: "map (\<lambda>entry. populate_student_result db (result_stub g (sgs_student entry))) entries =
           map (\<lambda>(notices, d). (notices, Inr d)) rest"
    by (cases runs) auto
  from Cons.IH [OF rest] run show ?case
    by (simp add: runs)
qed

lemma runs_exist:
  assumes "\<forall>entry \<in> set entries.
      \<exists>notices d. populate_student_result db (result_stub g (sgs_student entry)) = (notices, Inr d)"
  shows "\<exists>runs. map (\<lambda>entry. populate_student_result db (result_stub g (sgs_student entry))) entries =
           map (\<lambda>(notices, d). (notices, Inr d)) runs"
  using assms
proof (induction entries)
  case Nil
  then show ?case by simp
next
  case (Cons entry entries)
  then obtain runs where
    "map (\<lambda>entry. populate_student_result db (result_stub g (sgs_student entry))) entries =
           map (\<lambda>(notices, d). (notices, Inr d)) runs"
    by auto
  moreover from Cons.prems obtain notices d where
    "populate_student_result db (result_stub g (sgs_student entry)) = (notices, Inr d)"
    by auto
  ultimately have
    "map (\<lambda>entry. populate_student_result db (result_stub g (sgs_student entry))) (entry # entries) =
           map (\<lambda>(notices, d). (notices, Inr d)) ((notices, d) # runs)"
    by simp
  then show ?case by blast
qed

lemma runs_trace:
  assumes "map (\<lambda>entry. populate_student_result db (result_stub g (sgs_student entry))) entries =
           map (\<lambda>(notices, d). (notices, Inr d)) runs"
  shows "inserted (concat (map (\<lambda>(notices, d). notices @ [Insert d, Commit]) runs) @ [Msgprint m]) =
           map snd runs"
    and "committed_from [] (concat (map (\<lambda>(notices, d). notices @ [Insert d, Commit]) runs) @
           [Msgprint m]) = map snd runs"
    and "map student (map snd runs) = map sgs_student entries"
  using assms
proof (induction entries arbitrary: runs)
  case Nil
  {
    case 1 then show ?case by simp
  next
    case 2 then show ?case by simp
  next
    case 3 then show ?case by simp
  }
next
  case (Cons entry entries)
  {
    case 1
    then obtain notices d rest where runs: "runs = (notices, d) # rest"
      and run: "populate_student_result db (result_stub g (sgs_student entry)) = (notices, Inr d)"
      and rest: "map (\<lambda>entry. populate_student_result db (result_stub g (sgs_student entry))) entries =
           map (\<lambda>(notices, d). (notices, Inr d)) rest"
      by (cases runs) auto
    from populate_student_result_no_writes [OF run] have "inserted notices = []"
      by (rule inserted_no_writes)
    with Cons.IH(1) [OF rest] show ?case
      by (simp add: runs inserted_append)
  next
    case 2
    then obtain notices d rest where runs: "runs = (notices, d) # rest"
      and run: "populate_student_result db (result_stub g (sgs_student entry)) = (notices, Inr d)"
      and rest: "map (\<lambda>entry. populate_student_result db (result_stub g (sgs_student entry))) entries =
           map (\<lambda>(notices, d). (notices, Inr d)) rest"
      by (cases runs) auto
    from populate_student_result_no_writes [OF run]
    have "\<And>ys. committed_from [] (notices @ ys) = committed_from [] ys"
      by (rule committed_from_no_writes)
    with Cons.IH(2) [OF rest] show ?case
      by (simp add: runs)
  next
    case 3
    then obtain notices d rest where runs: "runs = (notices, d) # rest"
      and run: "populate_student_result db (result_stub g (sgs_student entry)) = (notices, Inr d)"
      and rest: "map (\<lambda>entry. populate_student_result db (result_stub g (sgs_student entry))) entries =
           map (\<lambda>(notices, d). (notices, Inr d)) rest"
      by (cases runs) auto
    from populated_student [OF run] have "student d = sgs_student entry"
      by (simp add: result_stub_def)
    with Cons.IH(3) [OF rest] show ?case
      by (simp add: runs)
  }
qed

subsection \<open>When the populator returns\<close>

lemma sql_sum_not_null:
  assumes "vs \<noteq> []" and "\<forall>v \<in> set vs. v \<noteq> None"
  shows "sql_sum vs \<noteq> None"
proof -
  from assms obtain x rest where "vs = Some x # rest"
    by (cases vs) auto
  then show ?thesis
    by (simp add: sql_sum_def)
qed

lemma totals_by_student_not_null:
  assumes "\<forall>ar \<in> set rows. ar_total_score ar \<noteq> None"
  shows "\<forall>r \<in> set (totals_by_student rows). snd r \<noteq> None"
proof
  fix r
  assume "r \<in> set (totals_by_student rows)"
  then obtain ar where ar: "ar \<in> set rows"
    and r: "r = (ar_student ar, sql_sum (map ar_total_score
                   (filter (\<lambda>ar'. ar_student ar' = ar_student ar) rows)))"
    unfolding totals_by_student_rows by auto
  from ar have "map ar_total_score (filter (\<lambda>ar'. ar_student ar' = ar_student ar) rows) \<noteq> []"
    by (auto simp: filter_empty_conv)
  moreover from assms
  have "\<forall>v \<in> set (map ar_total_score (filter (\<lambda>ar'. ar_student ar' = ar_student ar) rows)).
          v \<noteq> None"
    by auto
  ultimately show "snd r \<noteq> None"
    unfolding r snd_conv by (rule sql_sum_not_null)
qed

lemma class_arm_totals_not_null:
  assumes "\<forall>ar \<in> set (tabAssessment_Result db). ar_total_score ar \<noteq> None"
  shows "\<forall>r \<in> set (class_arm_totals db grp ag term_name year). snd r \<noteq> None"
  unfolding class_arm_totals_def
  by (rule totals_by_student_not_null) (use assms in \<open>auto simp: group_results_iff\<close>)

lemma class_totals_not_null:
  assumes "\<forall>ar \<in> set (tabAssessment_Result db). ar_total_score ar \<noteq> None"
  shows "\<forall>r \<in> set (class_totals db program year term_name ag). snd r \<noteq> None"
  unfolding class_totals_def
  by (rule totals_by_student_not_null) (use assms in auto)

lemma positions_returns:
  assumes "\<forall>ar \<in> set (tabAssessment_Result db). ar_total_score ar \<noteq> None"
  shows "\<exists>d'. positions db d = Inr d'"
proof -
  have arm: "\<exists>d1. class_arm_position_step db d0 = Inr d1" for d0
  proof -
    from count_position_total [OF class_arm_totals_not_null [OF assms]] obtain q where
      "count_position (class_arm_totals db (student_group d0) (assessment_group d0)
         (academic_term d0) (academic_year d0)) (or_0 (total_marks_obtained d0)) 1 = Inr q"
      by blast
    then show ?thesis
      by (simp add: class_arm_position_step_def Let_def)
  qed
  have cls: "\<exists>d2. class_position_step db d1 = Inr d2" for d1
  proof -
    from count_position_total [OF class_totals_not_null [OF assms]] obtain q where
      "count_position (class_totals db (get_program db (student_group d1)) (academic_year d1)
         (academic_term d1) (assessment_group d1)) (or_0 (total_marks_obtained d1)) 1 = Inr q"
      by blast
    then show ?thesis
      by (simp add: class_position_step_def Let_def)
  qed
  from arm obtain d1 where "class_arm_position_step db d = Inr d1"
    by blast
  moreover from cls obtain d2 where "class_position_step db d1 = Inr d2"
    by blast
  ultimately show ?thesis
    by (simp add: positions_def)
qed

lemma populate_results_positions:
  "populate_results db B rows = (out, r) \<Longrightarrow> \<exists>d. r = positions db d"
  by (auto simp: populate_results_def Let_def split: prod.splits)

lemma populate_student_result_returns:
  assumes "get_student db (student doc) = Inr student_doc"
    and "get_academic_term db (academic_term doc) = Inr term_doc"
    and "\<forall>ar \<in> set (tabAssessment_Result db). ar_total_score ar \<noteq> None"
  shows "\<exists>out doc'. populate_student_result db doc = (out, Inr doc')"
proof -
  obtain out r where run: "populate_student_result db doc = (out, r)"
    by (cases "populate_student_result db doc")
  have "\<exists>doc'. r = Inr doc'"
  proof (rule populate_student_result_shape [OF run assms(1,2)], goal_cases)
    case (1 B out1)
    show ?case
    proof (cases "detailed_results db doc = []")
      case True
      with 1(14) show ?thesis by simp
    next
      case False
      with 1(15) obtain out2 where "populate_results db B (detailed_results db doc) = (out2, r)"
        by auto
      from populate_results_positions [OF this] positions_returns [OF assms(3)]
      show ?thesis by metis
    qed
  qed
  with run show ?thesis by auto
qed

lemma generate_class_results_trace:
  assumes "get_generator db docname = Inr generator_doc"
    and "truthy (gen_assessment_group generator_doc)"
    and "truthy (gen_academic_year generator_doc)"
    and "truthy (gen_academic_term generator_doc)"
    and "truthy (gen_student_group generator_doc)"
    and "students_of_group db (gen_student_group generator_doc) = entries"
    and "\<forall>entry \<in> set entries.
           \<exists>notices d. populate_student_result db (result_stub generator_doc (sgs_student entry)) =
             (notices, Inr d)"
  shows "\<exists>out runs m.
      generate_class_results db docname = (out, Inr ())
    \<and> map (\<lambda>entry. populate_student_result db (result_stub generator_doc (sgs_student entry)))
          entries = map (\<lambda>(notices, d). (notices, Inr d)) runs
    \<and> out = concat (map (\<lambda>(notices, d). notices @ [Insert d, Commit]) runs) @ [Msgprint m]
    \<and> inserted out = map snd runs
    \<and> committed out = inserted out
    \<and> length (inserted out) = length entries
    \<and> map student (inserted out) = map sgs_student entries
    \<and> (distinct (map sgs_student entries) \<longrightarrow>
         distinct (map student (inserted out)) \<and> distinct (inserted out))"
proof -
  from runs_exist [OF assms(7)] obtain runs where
    runs: "map (\<lambda>entry. populate_student_result db (result_stub generator_doc (sgs_student entry)))
          entries = map (\<lambda>(notices, d). (notices, Inr d)) runs"
    by blast
  define trace where "trace = concat (map (\<lambda>(notices, d). notices @ [Insert d, Commit]) runs)"
  have loop: "generate_loop db generator_doc entries = (trace, Inr ())"
    unfolding trace_def by (rule generate_loop_runs [OF runs])
  define m where "m = (if entries = []
      then ''No students found in '' @ str_opt (gen_student_group generator_doc)
      else ''Generated results for '' @ str_nat (length entries) @ '' students in '' @
           str_opt (gen_student_group generator_doc) @ ''.'')"
  have "entries = [] \<Longrightarrow> trace = []"
    using loop by simp
  then have run: "generate_class_results db docname = (trace @ [Msgprint m], Inr ())"
    using assms(1-6) loop by (simp add: generate_class_results_def m_def)
  have ins: "inserted (trace @ [Msgprint m]) = map snd runs"
    unfolding trace_def by (rule runs_trace(1) [OF runs])
  have com: "committed (trace @ [Msgprint m]) = map snd runs"
    unfolding trace_def committed_def by (rule runs_trace(2) [OF runs])
  have st: "map student (map snd runs) = map sgs_student entries"
    by (rule runs_trace(3) [OF runs])
  from runs have "length (map (\<lambda>(notices, d). (notices, Inr d :: error + school_term_result)) runs) =
      length entries"
    by (metis length_map)
  then have len: "length runs = length entries"
    by simp
  have dist: "distinct (map student (map snd runs)) \<and> distinct (map snd runs)"
    if "distinct (map sgs_student entries)"
    using that st by (metis distinct_map)
  show ?thesis
  proof (intro exI conjI impI)
    show "generate_class_results db docname = (trace @ [Msgprint m], Inr ())"
      by (rule run)
    show "map (\<lambda>entry. populate_student_result db (result_stub generator_doc (sgs_student entry)))
          entries = map (\<lambda>(notices, d). (notices, Inr d)) runs"
      by (rule runs)
    show "trace @ [Msgprint m] =
        concat (map (\<lambda>(notices, d). notices @ [Insert d, Commit]) runs) @ [Msgprint m]"
      by (simp add: trace_def)
    show "inserted (trace @ [Msgprint m]) = map snd runs"
      by (rule ins)
    show "committed (trace @ [Msgprint m]) = inserted (trace @ [Msgprint m])"
      by (simp add: ins com)
    show "length (inserted (trace @ [Msgprint m])) = length entries"
      by (simp add: ins len)
    show "map student (inserted (trace @ [Msgprint m])) = map sgs_student entries"
      by (simp only: ins st)
    show "distinct (map student (inserted (trace @ [Msgprint m])))"
      if "distinct (map sgs_student entries)"
      using that by (simp only: ins st)
    show "distinct (inserted (trace @ [Msgprint m]))"
      if "distinct (map sgs_student entries)"
      using dist [OF that] by (simp only: ins)
  qed
qed

lemma demo_students_of_group:
  "students_of_group demo_db (Some ''G1'') =
     [demo_member ''S1'', demo_member ''S2'', demo_member ''S3'', demo_member ''S4'']"
  by code_simp

lemma demo_get_generator:
  "get_generator demo_db ''GEN1'' =
     Inr \<lparr>gen_name = ''GEN1'', gen_assessment_group = Some ''Exams'',
          gen_academic_year = Some ''2025'', gen_academic_term = Some ''Term 1'',
          gen_student_group = Some ''G1''\<rparr>"
  by code_simp

lemma demo_result_stub:
  "result_stub \<lparr>gen_name = ''GEN1'', gen_assessment_group = Some ''Exams'',
          gen_academic_year = Some ''2025'', gen_academic_term = Some ''Term 1'',
          gen_student_group = Some ''G1''\<rparr> (sgs_student (demo_member st)) = demo_stub st"
  by (simp add: result_stub_def demo_stub_def demo_member_def)

text \<open>
  C6. When the generator record has its four filters set, every one of the K students
  listed for the group has a Student record, the Academic Term exists and no assessment
  result has a NULL total score, batch generation returns without error. Its trace is,
  student by student in listing order, the notices of populating that student's stub
  followed by the insert of the populated record and a commit, and then the closing
  notice: every record is inserted and committed before anything of the next student
  happens. So exactly K records are inserted, all of them committed, the i-th for the
  i-th listed student; they are pairwise distinct and of distinct students when the
  listed students are distinct.
\<close>

theorem generate_class_results_creates_all:
  assumes "get_generator db docname = Inr generator_doc"
    and "truthy (gen_assessment_group generator_doc)"
    and "truthy (gen_academic_year generator_doc)"
    and "truthy (gen_academic_term generator_doc)"
    and "truthy (gen_student_group generator_doc)"
    and "students_of_group db (gen_student_group generator_doc) = entries"
    and "\<forall>entry \<in> set entries. \<exists>student_doc. get_student db (sgs_student entry) = Inr student_doc"
    and "get_academic_term db (gen_academic_term generator_doc) = Inr term_doc"
    and "\<forall>ar \<in> set (tabAssessment_Result db). ar_total_score ar \<noteq> None"
  shows "\<exists>out runs m.
      generate_class_results db docname = (out, Inr ())
    \<and> map (\<lambda>entry. populate_student_result db (result_stub generator_doc (sgs_student entry)))
          entries = map (\<lambda>(notices, d). (notices, Inr d)) runs
    \<and> out = concat (map (\<lambda>(notices, d). notices @ [Insert d, Commit]) runs) @ [Msgprint m]
    \<and> inserted out = map snd runs
    \<and> committed out = inserted out
    \<and> length (inserted out) = length entries
    \<and> map student (inserted out) = map sgs_student entries
    \<and> (distinct (map sgs_student entries) \<longrightarrow>
         distinct (map student (inserted out)) \<and> distinct (inserted out))"
proof (rule generate_class_results_trace [OF assms(1-6)])
  show "\<forall>entry \<in> set entries.
           \<exists>notices d. populate_student_result db (result_stub generator_doc (sgs_student entry)) =
             (notices, Inr d)"
  proof
    fix entry
    assume "entry \<in> set entries"
    with assms(7) obtain student_doc where
      "get_student db (student (result_stub generator_doc (sgs_student entry))) = Inr student_doc"
      by (auto simp: result_stub_def)
    moreover have "get_academic_term db
        (academic_term (result_stub generator_doc (sgs_student entry))) = Inr term_doc"
      using assms(8) by (simp add: result_stub_def)
    ultimately show "\<exists>notices d.
        populate_student_result db (result_stub generator_doc (sgs_student entry)) = (notices, Inr d)"
      using assms(9) by (rule populate_student_result_returns)
  qed
qed

theorem generate_class_results_creates_all_witness:
  "students_of_group demo_db (Some ''G1'') =
     [demo_member ''S1'', demo_member ''S2'', demo_member ''S3'', demo_member ''S4'']
   \<and> (\<exists>out. generate_class_results demo_db ''GEN1'' = (out, Inr ())
        \<and> length (inserted out) = 4
        \<and> map student (inserted out) = [Some ''S1'', Some ''S2'', Some ''S3'', Some ''S4'']
        \<and> committed out = inserted out
        \<and> distinct (inserted out))"
proof -
  let ?g = "\<lparr>gen_name = ''GEN1'', gen_assessment_group = Some ''Exams'',
          gen_academic_year = Some ''2025'', gen_academic_term = Some ''Term 1'',
          gen_student_group = Some ''G1''\<rparr>"
  have filters: "truthy (gen_assessment_group ?g)" "truthy (gen_academic_year ?g)"
    "truthy (gen_academic_term ?g)" "truthy (gen_student_group ?g)"
    by simp_all
  have entries: "students_of_group demo_db (gen_student_group ?g) =
     [demo_member ''S1'', demo_member ''S2'', demo_member ''S3'', demo_member ''S4'']"
    by (simp add: demo_students_of_group)
  have found: "get_student demo_db (Some ''S1'') = Inr \<lparr>s_name = ''S1'', s_gender = Some ''Female''\<rparr>"
    "get_student demo_db (Some ''S2'') = Inr \<lparr>s_name = ''S2'', s_gender = Some ''Male''\<rparr>"
    "get_student demo_db (Some ''S3'') = Inr \<lparr>s_name = ''S3'', s_gender = None\<rparr>"
    "get_student demo_db (Some ''S4'') = Inr \<lparr>s_name = ''S4'', s_gender = None\<rparr>"
    by code_simp+
  have records: "\<forall>entry \<in> set [demo_member ''S1'', demo_member ''S2'', demo_member ''S3'',
                           demo_member ''S4''].
      \<exists>student_doc. get_student demo_db (sgs_student entry) = Inr student_doc"
    by (simp add: demo_member_def found)
  have term_doc: "get_academic_term demo_db (gen_academic_term ?g) =
      Inr \<lparr>at_name = ''Term 1'', at_term_start_date = Some ''2025-01-06'',
           at_term_end_date = Some ''2025-03-28''\<rparr>"
    by code_simp
  have scores: "\<forall>ar \<in> set (tabAssessment_Result demo_db). ar_total_score ar \<noteq> None"
    by (simp add: demo_db_def demo_result_def)
  have students: "map sgs_student [demo_member ''S1'', demo_member ''S2'', demo_member ''S3'',
      demo_member ''S4''] = [Some ''S1'', Some ''S2'', Some ''S3'', Some ''S4'']"
    by (simp add: demo_member_def)
  from generate_class_results_creates_all
    [OF demo_get_generator filters entries records term_doc scores]
  have "\<exists>out. generate_class_results demo_db ''GEN1'' = (out, Inr ())
        \<and> length (inserted out) = 4
        \<and> map student (inserted out) = [Some ''S1'', Some ''S2'', Some ''S3'', Some ''S4'']
        \<and> committed out = inserted out
        \<and> distinct (inserted out)"
    unfolding students by auto
  with demo_students_of_group show ?thesis
    by simp
qed

subsection \<open>A failure part of the way through the batch\<close>

text \<open>
  When the populator raises for a student, the loop ends with that error; the records of
  the students before are inserted and committed, and nothing is written after them.
\<close>

lemma generate_loop_failure:
  assumes "map (\<lambda>entry. populate_student_result db (result_stub g (sgs_student entry))) before =
           map (\<lambda>(notices, d). (notices, Inr d)) runs"
    and "populate_student_result db (result_stub g (sgs_student entry)) = (notices, Inl e)"
  shows "generate_loop db g (before @ entry # rest) =
           (concat (map (\<lambda>(notices, d). notices @ [Insert d, Commit]) runs) @ notices, Inl e)"
  using assms(1)
proof (induction before arbitrary: runs)
  case Nil
  with assms(2) show ?case by simp
next
  case (Cons first before)
  then obtain notices1 d rest1 where runs: "runs = (notices1, d) # rest1"
    and run: "populate_student_result db (result_stub g (sgs_student first)) = (notices1, Inr d)"
    and rest: "map (\<lambda>entry. populate_student_result db (result_stub g (sgs_student entry))) before =
           map (\<lambda>(notices, d). (notices, Inr d)) rest1"
    by (cases runs) auto
  from Cons.IH [OF rest] run show ?case
    by (simp add: runs)
qed

lemma generate_loop_failure_committed:
  assumes "map (\<lambda>entry. populate_student_result db (result_stub g (sgs_student entry))) before =
           map (\<lambda>(notices, d). (notices, Inr d)) runs"
    and "populate_student_result db (result_stub g (sgs_student entry)) = (notices, Inl e)"
  shows "inserted (fst (generate_loop db g (before @ entry # rest))) = map snd runs"
    and "committed (fst (generate_loop db g (before @ entry # rest))) = map snd runs"
proof -
  have quiet: "\<forall>e \<in> set notices. \<not> is_write e"
    by (rule populate_student_result_no_writes [OF assms(2)])
  have split: "fst (generate_loop db g (before @ entry # rest)) =
      concat (map (\<lambda>(notices, d). notices @ [Insert d, Commit]) runs) @ notices"
    by (simp add: generate_loop_failure [OF assms])
  have ins: "inserted (concat (map (\<lambda>(notices, d). notices @ [Insert d, Commit]) runs) @ ys) =
      map snd runs @ inserted ys" for ys
    using assms(1)
  proof (induction before arbitrary: runs)
    case Nil
    then show ?case by simp
  next
    case (Cons first before)
    then obtain notices1 d rest1 where runs: "runs = (notices1, d) # rest1"
      and run: "populate_student_result db (result_stub g (sgs_student first)) = (notices1, Inr d)"
      and rest: "map (\<lambda>entry. populate_student_result db (result_stub g (sgs_student entry))) before =
           map (\<lambda>(notices, d). (notices, Inr d)) rest1"
      by (cases runs) auto
    from populate_student_result_no_writes [OF run] have "inserted notices1 = []"
      by (rule inserted_no_writes)
    with Cons.IH [OF rest] show ?case
      by (simp add: runs inserted_append)
  qed
  have com: "committed_from [] (concat (map (\<lambda>(notices, d). notices @ [Insert d, Commit]) runs) @ ys) =
      map snd runs @ committed_from [] ys" for ys
    using assms(1)
  proof (induction before arbitrary: runs)
    case Nil
    then show ?case by simp
  next
    case (Cons first before)
    then obtain notices1 d rest1 where runs: "runs = (notices1, d) # rest1"
      and run: "populate_student_result db (result_stub g (sgs_student first)) = (notices1, Inr d)"
      and rest: "map (\<lambda>entry. populate_student_result db (result_stub g (sgs_student entry))) before =
           map (\<lambda>(notices, d). (notices, Inr d)) rest1"
      by (cases runs) auto
    from populate_student_result_no_writes [OF run]
    have "\<And>zs. committed_from [] (notices1 @ zs) = committed_from [] zs"
      by (rule committed_from_no_writes)
    with Cons.IH [OF rest] show ?case
      by (simp add: runs)
  qed
  from inserted_no_writes [OF quiet] show "inserted (fst (generate_loop db g (before @ entry # rest))) = map snd runs"
    by (simp add: split ins)
  from committed_from_no_writes [OF quiet, of "[]" "[]"]
  show "committed (fst (generate_loop db g (before @ entry # rest))) = map snd runs"
    by (simp add: split com committed_def)
qed

end
